theory Spec2Isabelle
  imports Complex_Main
begin

section \<open>The annotation viewer (static/flipbook-viewer.js)\<close>

text \<open>
  The script keeps its state in module-level variables and in the DOM, and does its
  remote work through promises. The embedding passes the state explicitly: every handler
  is a function from the state to the new state, together with the request it issues, if
  any; the callbacks of a promise chain (\<open>.then(d => ...)\<close> and \<open>.catch\<close>) are a second
  function that is applied to the state at the time the response arrives.

  A number of the script is the real that the double denotes, and the arithmetic of
  the handlers rounds as doubles do (see \<open>fl\<close> below). The values \<open>null\<close> and
  \<open>undefined\<close> of a string variable are \<^const>\<open>None\<close>. The type \<open>'i\<close> is the type of the
  identifiers the server hands out.
\<close>

subsection \<open>Data\<close>

record 'i Note =
  note_id :: 'i
  note_page_number :: int
  note_content :: string
  note_x :: real
  note_y :: real

record rect =
  rect_x :: real
  rect_y :: real
  rect_w :: real
  rect_h :: real

record 'i Highlight =
  hl_id :: 'i
  hl_page_number :: int
  hl_coordinates :: rect
  hl_color :: "string option"

text \<open>The CSS box of the drag preview, in pixels.\<close>

record box =
  box_left :: real
  box_top :: real
  box_width :: real
  box_height :: real

text \<open>
  What an annotations layer contains. A note marker shows the note it was built from
  (position, title, and the id in its delete control); a highlight marker carries its
  colour class as well; the preview carries its background, its border and, once the
  pointer has moved, its box.
\<close>

datatype 'i body =
    NoteMarker "'i Note"
  | HighlightMarker string "'i Highlight"
  | HighlightPreview string string "box option"

text \<open>A DOM element: a node identity and what it shows.\<close>

record 'i element =
  node :: nat
  body :: "'i body"

text \<open>
  A \<open>.page\<close> element with its annotations layer: the layer's document offset and size,
  whether the page holds an \<open>img\<close>, and the children of the layer. A division by zero
  gives an infinity or NaN in the script, which the numbers of the model do not have: what
  the handlers compute is meaningful for a layer of non-zero width and height only.
\<close>

record 'i page =
  layer_left :: real
  layer_top :: real
  layer_width :: real
  layer_height :: real
  has_img :: bool
  children :: "'i element list"

text \<open>The object stored in \<open>highlightStart\<close> at pointer-down.\<close>

record drag =
  drag_x :: real
  drag_y :: real
  drag_pageNum :: int
  drag_offset_left :: real
  drag_offset_top :: real

text \<open>
  The state: the module-level variables of the script, the pages of the document by their
  \<open>data-page\<close> attribute, the counter of DOM nodes created so far, the state of the
  toolbar, and the two channels to the user (\<open>alert\<close> and \<open>console.error\<close>).
\<close>

record 'i viewer =
  currentMode :: "string option"
  currentHighlightColor :: string
  allNotes :: "'i Note list"
  allHighlights :: "'i Highlight list"
  loaded :: "int set"
  highlightStart :: "drag option"
  highlightPreview :: "nat option"
  dom_pages :: "int \<Rightarrow> 'i page option"
  next_node :: nat
  note_btn_active :: bool
  highlight_btn_active :: bool
  color_picker_shown :: bool
  color_ring :: "string option"
  body_cursor :: string
  alerts :: "string list"
  console_errors :: "string list"

text \<open>
  A pointer event as the handlers read it. For a touch event \<open>ev_clientX\<close> and
  \<open>ev_clientY\<close> are those of the first entry of the touch list the handler reads
  (\<open>touches[0]\<close>, or \<open>changedTouches[0]\<close> at touch end), which exists in every touch
  event a browser delivers. \<open>ev_on_delete\<close> says that the target lies inside a
  \<open>.delete-annotation\<close> control.
\<close>

record pointer =
  ev_clientX :: real
  ev_clientY :: real
  ev_pageX :: real
  ev_pageY :: real
  ev_on_delete :: bool

text \<open>The requests the script sends (all for the one book id of the page).\<close>

datatype 'i request =
    GetNotes
  | GetHighlights
  | PostNote int string real real
  | PostHighlight int rect string
  | DeleteNoteReq 'i
  | DeleteHighlightReq 'i

text \<open>
  The body of a create or delete response as the callbacks read it: \<open>d.success\<close> (its
  truthiness), \<open>d.id\<close> and \<open>d.error\<close>.
\<close>

record 'i reply =
  success :: bool
  reply_id :: 'i
  reply_error :: "string option"

text \<open>
  \<open>Rejected\<close>: the promise chain rejects before the callback has read \<open>d.success\<close> (the
  fetch fails, the body is not JSON, or it is JSON \<open>null\<close>), so \<open>.catch\<close> runs.
\<close>

datatype 'i response = Rejected | Json "'i reply"

text \<open>The result of one of the two fetches of \<open>preloadAnnotations\<close>.\<close>

datatype 'a fetched = FetchFailed | NotArray | Array "'a list"

subsection \<open>JavaScript operators\<close>

text \<open>Truthiness of a string-or-null value: \<open>null\<close>, \<open>undefined\<close> and \<open>""\<close> are falsy.\<close>

definition truthy :: "string option \<Rightarrow> bool" where
  "truthy v = (case v of None \<Rightarrow> False | Some s \<Rightarrow> s \<noteq> [])"

text \<open>\<open>a || b\<close> on such values.\<close>

definition or_else :: "string option \<Rightarrow> string \<Rightarrow> string" where
  "or_else v d = (case v of None \<Rightarrow> d | Some s \<Rightarrow> if s = [] then d else s)"

subsection \<open>JavaScript numbers\<close>

text \<open>
  A number of the script is an IEEE 754 double. It is modelled as the real it denotes,
  and each arithmetic operation rounds its exact result to the nearest double, ties to
  the even significand. Infinities and NaN are not modelled, so the operations below are
  those of the script for results of magnitude below \<open>2^1024\<close> and for division by a
  non-zero number.
\<close>

text \<open>The number of binary digits of a natural number.\<close>

fun bitlen :: "nat \<Rightarrow> nat" where
  "bitlen n = (if n = 0 then 0 else Suc (bitlen (n div 2)))"

declare bitlen.simps [simp del]

definition pow2 :: "int \<Rightarrow> real" where
  "pow2 k = (if 0 \<le> k then 2 ^ nat k else 1 / 2 ^ nat (- k))"

text \<open>The exponent \<open>e\<close> with \<open>2^e \<le> |x| < 2^(e+1)\<close>, for \<open>x \<noteq> 0\<close>.\<close>

definition binade :: "real \<Rightarrow> int" where
  "binade x =
     (let a = \<bar>x\<bar>
      in if 1 \<le> a then int (bitlen (nat \<lfloor>a\<rfloor>)) - 1
         else - int (bitlen (nat (\<lceil>1 / a\<rceil> - 1))))"

text \<open>The nearest integer, a tie going to the even one.\<close>

definition round_even :: "real \<Rightarrow> int" where
  "round_even r =
     (let f = \<lfloor>r\<rfloor>; d = r - of_int f
      in if d < 1 / 2 then f else if 1 / 2 < d then f + 1 else if even f then f else f + 1)"

text \<open>
  The nearest double: a multiple of \<open>2^(e-52)\<close> in the binade \<open>e\<close> of \<open>x\<close>, and of
  \<open>2^(-1074)\<close> below the normal range.
\<close>

definition fl :: "real \<Rightarrow> real" where
  "fl x =
     (if x = 0 then 0
      else let q = pow2 (max (binade x) (- 1022) - 52)
           in of_int (round_even (x / q)) * q)"

text \<open>The operators \<open>-\<close>, \<open>*\<close> and \<open>/\<close> of the script.\<close>

definition js_sub :: "real \<Rightarrow> real \<Rightarrow> real" where
  "js_sub a b = fl (a - b)"

definition js_mul :: "real \<Rightarrow> real \<Rightarrow> real" where
  "js_mul a b = fl (a * b)"

definition js_div :: "real \<Rightarrow> real \<Rightarrow> real" where
  "js_div a b = fl (a / b)"

subsection \<open>DOM operations\<close>

text \<open>\<open>$(html)\<close>: a new element; it takes the next node identity.\<close>

definition create_element :: "'i body \<Rightarrow> 'i viewer \<Rightarrow> 'i element \<times> 'i viewer" where
  "create_element b st = (\<lparr>node = next_node st, body = b\<rparr>, st\<lparr>next_node := Suc (next_node st)\<rparr>)"

text \<open>
  \<open>$layer.append($el)\<close> for the layer of page \<open>p\<close>; nothing happens when the page is
  not in the document (an empty jQuery set).
\<close>

definition append_to_layer :: "int \<Rightarrow> 'i element \<Rightarrow> 'i viewer \<Rightarrow> 'i viewer" where
  "append_to_layer p el st =
     (case dom_pages st p of
        None \<Rightarrow> st
      | Some pg \<Rightarrow> st\<lparr>dom_pages := (dom_pages st)(p \<mapsto> pg\<lparr>children := children pg @ [el]\<rparr>)\<rparr>)"

text \<open>
  \<open>$set.remove()\<close>, the set given by a predicate on elements: its members leave the
  document, wherever they are.
\<close>

definition remove_where :: "('i element \<Rightarrow> bool) \<Rightarrow> 'i viewer \<Rightarrow> 'i viewer" where
  "remove_where P st =
     st\<lparr>dom_pages := (\<lambda>k. map_option (\<lambda>pg. pg\<lparr>children := filter (\<lambda>e. \<not> P e) (children pg)\<rparr>)
                               (dom_pages st k))\<rparr>"

text \<open>\<open>$el.css({...})\<close> on the preview element.\<close>

fun set_box :: "box \<Rightarrow> 'i body \<Rightarrow> 'i body" where
  "set_box b (HighlightPreview bg border _) = HighlightPreview bg border (Some b)"
| "set_box b other = other"

definition css_node :: "nat \<Rightarrow> box \<Rightarrow> 'i viewer \<Rightarrow> 'i viewer" where
  "css_node n b st =
     st\<lparr>dom_pages := (\<lambda>k. map_option
         (\<lambda>pg. pg\<lparr>children := map (\<lambda>e. if node e = n then e\<lparr>body := set_box b (body e)\<rparr> else e) (children pg)\<rparr>)
         (dom_pages st k))\<rparr>"

fun is_marker :: "'i body \<Rightarrow> bool" where
  "is_marker (NoteMarker _) = True"
| "is_marker (HighlightMarker _ _) = True"
| "is_marker (HighlightPreview _ _ _) = False"

text \<open>\<open>$pageEl.find('.note-marker, .highlight-marker').remove()\<close>\<close>

definition remove_markers :: "int \<Rightarrow> 'i viewer \<Rightarrow> 'i viewer" where
  "remove_markers p st =
     (case dom_pages st p of
        None \<Rightarrow> st
      | Some pg \<Rightarrow> st\<lparr>dom_pages := (dom_pages st)(p \<mapsto>
                      pg\<lparr>children := filter (\<lambda>e. \<not> is_marker (body e)) (children pg)\<rparr>)\<rparr>)"

text \<open>\<open>alert(msg)\<close> and \<open>console.error(msg, err)\<close>\<close>

definition alert :: "string \<Rightarrow> 'i viewer \<Rightarrow> 'i viewer" where
  "alert msg st = st\<lparr>alerts := alerts st @ [msg]\<rparr>"

definition console_error :: "string \<Rightarrow> 'i viewer \<Rightarrow> 'i viewer" where
  "console_error msg st = st\<lparr>console_errors := console_errors st @ [msg]\<rparr>"

subsection \<open>Rendering from the cache\<close>

text \<open>
  \<open>renderNote\<close> and \<open>renderHighlight\<close> append what \<open>$(html)\<close> makes of a template
  literal. Here that is one element, which carries the annotation it was built from:
  this is what the templates give as long as the pasted fields (the text of a note, the
  colour of a highlight, the ids and coordinates) hold no quote or markup. The string
  itself, for a note, is \<open>note_html\<close> below.
\<close>

definition renderNote :: "'i Note \<Rightarrow> int \<Rightarrow> 'i viewer \<Rightarrow> 'i viewer" where
  "renderNote n p st =
     (let (el, st1) = create_element (NoteMarker n) st in append_to_layer p el st1)"

definition colorClass :: "'i Highlight \<Rightarrow> string" where
  "colorClass hl = ''highlight-'' @ or_else (hl_color hl) ''yellow''"

definition renderHighlight :: "'i Highlight \<Rightarrow> int \<Rightarrow> 'i viewer \<Rightarrow> 'i viewer" where
  "renderHighlight hl p st =
     (let (el, st1) = create_element (HighlightMarker (colorClass hl) hl) st
      in append_to_layer p el st1)"

text \<open>
  \<open>loadAnnotations(pageNum, $pageEl)\<close>, with \<open>p\<close> the \<open>data-page\<close> of \<open>$pageEl\<close>. The two
  \<open>forEach\<close> loops run over the filtered cache in order.
\<close>

definition loadAnnotations :: "int \<Rightarrow> int \<Rightarrow> 'i viewer \<Rightarrow> 'i viewer" where
  "loadAnnotations pageNum p st =
     (let st1 = remove_markers p st;
          st2 = foldl (\<lambda>s n. renderNote n p s) st1
                  (filter (\<lambda>n. note_page_number n = pageNum) (allNotes st1))
      in foldl (\<lambda>s h. renderHighlight h p s) st2
           (filter (\<lambda>h. hl_page_number h = pageNum) (allHighlights st2)))"

text \<open>
  The callback of \<open>load(view)\<close> for one entry \<open>v\<close> of the view. The page is looked up by
  \<open>data-page = v - 1\<close>, and \<open>$p.data('page')\<close> is that number again. Of the image branch
  only the bookkeeping in \<open>loaded\<close> is kept: the rest sets attributes of the \<open>img\<close>
  element, which no annotation code reads.
\<close>

definition load_entry :: "int \<Rightarrow> 'i viewer \<Rightarrow> 'i viewer" where
  "load_entry v st =
     (if v \<le> 0 then st
      else case dom_pages st (v - 1) of
        None \<Rightarrow> st
      | Some pg \<Rightarrow>
          (let st1 = (if has_img pg \<and> v \<notin> loaded st then st\<lparr>loaded := insert v (loaded st)\<rparr> else st)
           in loadAnnotations (v - 1) (v - 1) st1))"

definition load :: "int list \<Rightarrow> 'i viewer \<Rightarrow> 'i viewer" where
  "load view st = foldl (\<lambda>s v. load_entry v s) st view"

subsection \<open>The markup of a note marker\<close>

text \<open>
  \<open>renderNote\<close> builds its element from a template literal into which the fields of the
  note are pasted as they are. \<open>note_html\<close> is that string, given the strings that the
  template makes of \<open>note.x\<close>, \<open>note.y\<close>, \<open>note.content\<close> and \<open>note.id\<close>; every run of
  line breaks and indentation of the template is written as one space, and the white
  space around the whole is left out. \<^const>\<open>renderNote\<close> above is the case in which
  \<open>$(html)\<close> makes one element of this string.
\<close>

definition note_html :: "string \<Rightarrow> string \<Rightarrow> string \<Rightarrow> string \<Rightarrow> string" where
  \<open>note_html x y content ident =
     ''<div class="note-marker" style="left:'' @ x @ ''%; top:'' @ y @ ''%" title="'' @ content @
     ''"> <i class="fas fa-sticky-note text-[10px]"></i> '' @
     ''<div class="delete-annotation" onclick="deleteNote('' @ ident @
     '', this); event.stopPropagation();"> <i class="fas fa-times"></i> </div> </div>''\<close>

text \<open>
  What \<open>$(html)\<close> makes of such a string: the elements at its top level, each with its
  tag name and its attributes. The reader below follows the HTML tokenizer for markup
  that consists of start tags with attributes (quoted or not), end tags and text, with
  no comments, character references, void or raw-text elements; an end tag closes the
  innermost open element.
\<close>

datatype scan =
    Data | TagOpen | TagName | EndTag | Attrs | AttrName | AfterName | BeforeValue
  | Quoted char | Unquoted

definition is_space :: "char \<Rightarrow> bool" where
  "is_space c \<longleftrightarrow> c \<in> set [CHR '' '', CHR 0x09, CHR 0x0A, CHR 0x0C, CHR 0x0D]"

definition is_letter :: "char \<Rightarrow> bool" where
  "is_letter c \<longleftrightarrow> c \<in> set ''abcdefghijklmnopqrstuvwxyzABCDEFGHIJKLMNOPQRSTUVWXYZ''"

type_synonym tag = "string \<times> (string \<times> string) list"

text \<open>
  The state of the reader: how many elements are open, and the tag name, attribute
  name, attribute value and attributes of the tag being read.
\<close>

record tok =
  depth :: nat
  tname :: string
  aname :: string
  aval :: string
  attrs :: "(string \<times> string) list"

definition add_attr :: "tok \<Rightarrow> tok" where
  "add_attr t = t\<lparr>attrs := attrs t @ [(aname t, aval t)], aname := [], aval := []\<rparr>"

text \<open>The end of a start tag: it is reported when no element is open, and then it is open.\<close>

definition open_tag :: "tok \<Rightarrow> tag list \<times> tok" where
  "open_tag t =
     ((if depth t = 0 then [(tname t, attrs t)] else []), t\<lparr>depth := Suc (depth t)\<rparr>)"

fun html_scan :: "scan \<Rightarrow> tok \<Rightarrow> string \<Rightarrow> tag list" where
  "html_scan m t [] = []"
| "html_scan Data t (c # cs) =
     (if c = CHR ''<'' then html_scan TagOpen t cs else html_scan Data t cs)"
| "html_scan TagOpen t (c # cs) =
     (if c = CHR ''/'' then html_scan EndTag t cs
      else if is_letter c then
        html_scan TagName (t\<lparr>tname := [c], aname := [], aval := [], attrs := []\<rparr>) cs
      else if c = CHR ''<'' then html_scan TagOpen t cs
      else html_scan Data t cs)"
| "html_scan TagName t (c # cs) =
     (if c = CHR ''>'' then fst (open_tag t) @ html_scan Data (snd (open_tag t)) cs
      else if is_space c \<or> c = CHR ''/'' then html_scan Attrs t cs
      else html_scan TagName (t\<lparr>tname := tname t @ [c]\<rparr>) cs)"
| "html_scan Attrs t (c # cs) =
     (if c = CHR ''>'' then fst (open_tag t) @ html_scan Data (snd (open_tag t)) cs
      else if is_space c \<or> c = CHR ''/'' then html_scan Attrs t cs
      else html_scan AttrName (t\<lparr>aname := [c], aval := []\<rparr>) cs)"
| "html_scan AttrName t (c # cs) =
     (if c = CHR ''='' then html_scan BeforeValue t cs
      else if c = CHR ''>'' then
        fst (open_tag (add_attr t)) @ html_scan Data (snd (open_tag (add_attr t))) cs
      else if c = CHR ''/'' then html_scan Attrs (add_attr t) cs
      else if is_space c then html_scan AfterName t cs
      else html_scan AttrName (t\<lparr>aname := aname t @ [c]\<rparr>) cs)"
| "html_scan AfterName t (c # cs) =
     (if c = CHR ''='' then html_scan BeforeValue t cs
      else if c = CHR ''>'' then
        fst (open_tag (add_attr t)) @ html_scan Data (snd (open_tag (add_attr t))) cs
      else if c = CHR ''/'' then html_scan Attrs (add_attr t) cs
      else if is_space c then html_scan AfterName t cs
      else html_scan AttrName ((add_attr t)\<lparr>aname := [c]\<rparr>) cs)"
| "html_scan BeforeValue t (c # cs) =
     (if is_space c then html_scan BeforeValue t cs
      else if c = CHR 0x22 \<or> c = CHR 0x27 then html_scan (Quoted c) t cs
      else if c = CHR ''>'' then
        fst (open_tag (add_attr t)) @ html_scan Data (snd (open_tag (add_attr t))) cs
      else html_scan Unquoted (t\<lparr>aval := [c]\<rparr>) cs)"
| "html_scan (Quoted q) t (c # cs) =
     (if c = q then html_scan Attrs (add_attr t) cs
      else html_scan (Quoted q) (t\<lparr>aval := aval t @ [c]\<rparr>) cs)"
| "html_scan Unquoted t (c # cs) =
     (if is_space c then html_scan Attrs (add_attr t) cs
      else if c = CHR ''>'' then
        fst (open_tag (add_attr t)) @ html_scan Data (snd (open_tag (add_attr t))) cs
      else html_scan Unquoted (t\<lparr>aval := aval t @ [c]\<rparr>) cs)"
| "html_scan EndTag t (c # cs) =
     (if c = CHR ''>'' then html_scan Data (t\<lparr>depth := depth t - 1\<rparr>) cs
      else html_scan EndTag t cs)"

definition top_level :: "string \<Rightarrow> tag list" where
  "top_level s = html_scan Data \<lparr>depth = 0, tname = [], aname = [], aval = [], attrs = []\<rparr> s"

text \<open>The class names of an element: its \<open>class\<close> attribute, split at white space.\<close>

fun split_spaces :: "string \<Rightarrow> string \<Rightarrow> string list" where
  "split_spaces w [] = (if w = [] then [] else [w])"
| "split_spaces w (c # cs) =
     (if is_space c then (if w = [] then [] else [w]) @ split_spaces [] cs
      else split_spaces (w @ [c]) cs)"

definition class_names :: "tag \<Rightarrow> string list" where
  "class_names t = (case map_of (snd t) ''class'' of None \<Rightarrow> [] | Some v \<Rightarrow> split_spaces [] v)"

text \<open>
  Whether the selector \<open>.note-marker, .highlight-marker\<close> of \<open>loadAnnotations\<close> matches
  the element.
\<close>

definition marker_selected :: "tag \<Rightarrow> bool" where
  "marker_selected t \<longleftrightarrow>
     ''note-marker'' \<in> set (class_names t) \<or> ''highlight-marker'' \<in> set (class_names t)"

subsection \<open>Interaction mode\<close>

definition setMode :: "string option \<Rightarrow> 'i viewer \<Rightarrow> 'i viewer" where
  "setMode mode st =
     (let st1 = st\<lparr>currentMode := mode, note_btn_active := False,
                   highlight_btn_active := False, color_picker_shown := False\<rparr>
      in if mode = Some ''note'' then st1\<lparr>note_btn_active := True, body_cursor := ''crosshair''\<rparr>
         else if mode = Some ''highlight'' then
           st1\<lparr>highlight_btn_active := True, color_picker_shown := True, body_cursor := ''text''\<rparr>
         else st1\<lparr>body_cursor := ''default''\<rparr>)"

definition toggleMode :: "string option \<Rightarrow> 'i viewer \<Rightarrow> 'i viewer" where
  "toggleMode mode st = (if currentMode st = mode then setMode None st else setMode mode st)"

definition palette :: "string list" where
  "palette = [''yellow'', ''green'', ''pink'', ''blue'']"

definition setHighlightColor :: "string \<Rightarrow> 'i viewer \<Rightarrow> 'i viewer" where
  "setHighlightColor color st =
     st\<lparr>currentHighlightColor := color,
        color_ring := (if color \<in> set palette then Some color else None)\<rparr>"

subsection \<open>Placing a note\<close>

text \<open>
  The click handler of \<open>.annotations-layer\<close>, for a click on the layer of page \<open>p\<close>;
  \<open>answer\<close> is what \<open>prompt\<close> returns if it is called (\<open>None\<close> when cancelled). The
  result is the new state and the POST that was sent, if any. A layer that receives an
  event is in the document, so the first \<open>case\<close> only reads its geometry.
\<close>

definition layer_click ::
  "int \<Rightarrow> pointer \<Rightarrow> string option \<Rightarrow> 'i viewer \<Rightarrow> 'i viewer \<times> 'i request option" where
  "layer_click p e answer st =
     (if \<not> truthy (currentMode st) \<or> currentMode st = Some ''highlight'' then (st, None)
      else case dom_pages st p of
        None \<Rightarrow> (st, None)
      | Some pg \<Rightarrow>
          (let pageNum = p;
               x = js_mul (js_div (js_sub (ev_pageX e) (layer_left pg)) (layer_width pg)) 100;
               y = js_mul (js_div (js_sub (ev_pageY e) (layer_top pg)) (layer_height pg)) 100
           in if currentMode st = Some ''note'' then
                (setMode None st,
                 case answer of
                   None \<Rightarrow> None
                 | Some content \<Rightarrow>
                     if content \<noteq> [] then Some (PostNote pageNum content x y) else None)
              else (st, None)))"

text \<open>
  The callbacks of that POST, with the variables they close over: \<open>.then(d => ...)\<close> for a
  JSON body, \<open>.catch\<close> otherwise.
\<close>

definition note_post_then ::
  "int \<Rightarrow> string \<Rightarrow> real \<Rightarrow> real \<Rightarrow> 'i response \<Rightarrow> 'i viewer \<Rightarrow> 'i viewer" where
  "note_post_then pageNum content x y resp st =
     (case resp of
        Json d \<Rightarrow>
          if success d then
            (let newNote = \<lparr>note_id = reply_id d, note_page_number = pageNum,
                            note_content = content, note_x = x, note_y = y\<rparr>
             in renderNote newNote pageNum (st\<lparr>allNotes := allNotes st @ [newNote]\<rparr>))
          else alert (''Error: '' @ or_else (reply_error d) ''Failed to create note'') st
      | Rejected \<Rightarrow>
          alert ''Network error: Failed to create note'' (console_error ''Add note error:'' st))"

subsection \<open>Drawing a highlight\<close>

text \<open>
  The table \<open>colorStyles\<close> (background, border) and the lookup
  \<open>colorStyles[currentHighlightColor] || colorStyles.yellow\<close>. A key that the table
  inherits from \<open>Object.prototype\<close> gives a truthy value without \<open>bg\<close> and \<open>border\<close>,
  which the template writes as \<open>undefined\<close>.
\<close>

definition colorStyles :: "(string \<times> string \<times> string) list" where
  "colorStyles =
     [(''yellow'', ''rgba(255, 255, 0, 0.4)'', ''rgba(255, 165, 0, 0.8)''),
      (''green'', ''rgba(34, 197, 94, 0.4)'', ''rgba(34, 197, 94, 0.8)''),
      (''pink'', ''rgba(244, 114, 182, 0.4)'', ''rgba(244, 114, 182, 0.8)''),
      (''blue'', ''rgba(59, 130, 246, 0.4)'', ''rgba(59, 130, 246, 0.8)'')]"

definition inherited_keys :: "string list" where
  "inherited_keys =
     [''constructor'', ''toString'', ''toLocaleString'', ''valueOf'', ''hasOwnProperty'',
      ''isPrototypeOf'', ''propertyIsEnumerable'', ''__proto__'', ''__defineGetter__'',
      ''__defineSetter__'', ''__lookupGetter__'', ''__lookupSetter__'']"

definition preview_style :: "string \<Rightarrow> string \<times> string" where
  "preview_style color =
     (case map_of colorStyles color of
        Some style \<Rightarrow> style
      | None \<Rightarrow>
          if color \<in> set inherited_keys then (''undefined'', ''undefined'')
          else (''rgba(255, 255, 0, 0.4)'', ''rgba(255, 165, 0, 0.8)''))"

text \<open>
  The rectangle between the press point and the current point, as both the move handler
  and the release handler compute it (\<open>Math.min\<close> and \<open>Math.abs\<close> are exact).
\<close>

definition normalized :: "real \<Rightarrow> real \<Rightarrow> real \<Rightarrow> real \<Rightarrow> box" where
  "normalized startX startY endX endY =
     \<lparr>box_left = min startX endX, box_top = min startY endY,
      box_width = \<bar>js_sub endX startX\<bar>, box_height = \<bar>js_sub endY startY\<bar>\<rparr>"

text \<open>Pointer-down on the layer of page \<open>p\<close>.\<close>

definition layer_mousedown :: "int \<Rightarrow> pointer \<Rightarrow> 'i viewer \<Rightarrow> 'i viewer" where
  "layer_mousedown p e st =
     (if currentMode st \<noteq> Some ''highlight'' then st
      else if ev_on_delete e then st
      else case dom_pages st p of
        None \<Rightarrow> st
      | Some pg \<Rightarrow>
          (let startX = js_sub (ev_clientX e) (layer_left pg);
               startY = js_sub (ev_clientY e) (layer_top pg);
               st1 = st\<lparr>highlightStart := Some \<lparr>drag_x = startX, drag_y = startY, drag_pageNum = p,
                          drag_offset_left = layer_left pg, drag_offset_top = layer_top pg\<rparr>\<rparr>;
               style = preview_style (currentHighlightColor st1);
               (el, st2) = create_element (HighlightPreview (fst style) (snd style) None) st1
           in append_to_layer p el (st2\<lparr>highlightPreview := Some (node el)\<rparr>)))"

text \<open>Pointer-move anywhere in the document.\<close>

definition document_mousemove :: "pointer \<Rightarrow> 'i viewer \<Rightarrow> 'i viewer" where
  "document_mousemove e st =
     (case highlightStart st of
        None \<Rightarrow> st
      | Some hs \<Rightarrow>
          (case highlightPreview st of
             None \<Rightarrow> st
           | Some pv \<Rightarrow>
               (let currentX = js_sub (ev_clientX e) (drag_offset_left hs);
                    currentY = js_sub (ev_clientY e) (drag_offset_top hs)
                in css_node pv (normalized (drag_x hs) (drag_y hs) currentX currentY) st)))"

text \<open>
  Pointer-up anywhere in the document: the new state and the POST that was sent, if any.
  The layer of the open drag is still in the document, so the inner \<open>case\<close> only reads
  its size.
\<close>

definition document_mouseup :: "pointer \<Rightarrow> 'i viewer \<Rightarrow> 'i viewer \<times> 'i request option" where
  "document_mouseup e st =
     (case highlightStart st of
        None \<Rightarrow> (st, None)
      | Some hs \<Rightarrow>
          (case highlightPreview st of
             None \<Rightarrow> (st, None)
           | Some pv \<Rightarrow>
               (let pageNum = drag_pageNum hs;
                    endX = js_sub (ev_clientX e) (drag_offset_left hs);
                    endY = js_sub (ev_clientY e) (drag_offset_top hs);
                    startX = drag_x hs;
                    startY = drag_y hs;
                    req =
                      (if \<bar>js_sub endX startX\<bar> > 10 \<or> \<bar>js_sub endY startY\<bar> > 10 then
                         (case dom_pages st pageNum of
                            None \<Rightarrow> None
                          | Some pg \<Rightarrow>
                              (let b = normalized startX startY endX endY;
                                   x = js_mul (js_div (box_left b) (layer_width pg)) 100;
                                   y = js_mul (js_div (box_top b) (layer_height pg)) 100;
                                   w = js_mul (js_div (box_width b) (layer_width pg)) 100;
                                   h = js_mul (js_div (box_height b) (layer_height pg)) 100
                               in Some (PostHighlight pageNum
                                          \<lparr>rect_x = x, rect_y = y, rect_w = w, rect_h = h\<rparr>
                                          (currentHighlightColor st))))
                       else None)
                in ((remove_where (\<lambda>el. node el = pv) st)
                      \<lparr>highlightStart := None, highlightPreview := None\<rparr>, req))))"

text \<open>
  The callbacks of that POST. The colour of the new highlight is read from
  \<open>currentHighlightColor\<close> when the response arrives.
\<close>

definition highlight_post_then :: "int \<Rightarrow> rect \<Rightarrow> 'i response \<Rightarrow> 'i viewer \<Rightarrow> 'i viewer" where
  "highlight_post_then pageNum r resp st =
     (case resp of
        Json d \<Rightarrow>
          if success d then
            (let newHighlight = \<lparr>hl_id = reply_id d, hl_page_number = pageNum,
                                 hl_coordinates = r, hl_color = Some (currentHighlightColor st)\<rparr>
             in renderHighlight newHighlight pageNum
                  (st\<lparr>allHighlights := allHighlights st @ [newHighlight]\<rparr>))
          else alert (''Error: '' @ or_else (reply_error d) ''Failed to create highlight'') st
      | Rejected \<Rightarrow>
          alert ''Network error: Failed to create highlight''
            (console_error ''Add highlight error:'' st))"

subsection \<open>Deleting\<close>

fun is_note_marker :: "'i body \<Rightarrow> bool" where
  "is_note_marker (NoteMarker _) = True"
| "is_note_marker _ = False"

fun is_highlight_marker :: "'i body \<Rightarrow> bool" where
  "is_highlight_marker (HighlightMarker _ _) = True"
| "is_highlight_marker _ = False"

text \<open>
  \<open>deleteNote(id, el)\<close>; \<open>confirmed\<close> is what \<open>confirm\<close> returns. In the callbacks,
  \<open>m\<close> is the node of the marker whose delete control \<open>el\<close> is:
  \<open>$(el).closest('.note-marker')\<close> is that marker, if it is a note marker.
\<close>

definition deleteNote :: "'i \<Rightarrow> bool \<Rightarrow> 'i viewer \<Rightarrow> 'i viewer \<times> 'i request option" where
  "deleteNote ident confirmed st = (if \<not> confirmed then (st, None) else (st, Some (DeleteNoteReq ident)))"

definition deleteNote_then :: "'i \<Rightarrow> nat \<Rightarrow> 'i response \<Rightarrow> 'i viewer \<Rightarrow> 'i viewer" where
  "deleteNote_then ident m resp st =
     (case resp of
        Json d \<Rightarrow>
          if success d then
            (let st1 = remove_where (\<lambda>el. node el = m \<and> is_note_marker (body el)) st
             in st1\<lparr>allNotes := filter (\<lambda>n. note_id n \<noteq> ident) (allNotes st1)\<rparr>)
          else alert (''Error: '' @ or_else (reply_error d) ''Failed to delete note'') st
      | Rejected \<Rightarrow>
          alert ''Network error: Failed to delete note'' (console_error ''Delete note error:'' st))"

definition deleteHighlight :: "'i \<Rightarrow> bool \<Rightarrow> 'i viewer \<Rightarrow> 'i viewer \<times> 'i request option" where
  "deleteHighlight ident confirmed st =
     (if \<not> confirmed then (st, None) else (st, Some (DeleteHighlightReq ident)))"

definition deleteHighlight_then :: "'i \<Rightarrow> nat \<Rightarrow> 'i response \<Rightarrow> 'i viewer \<Rightarrow> 'i viewer" where
  "deleteHighlight_then ident m resp st =
     (case resp of
        Json d \<Rightarrow>
          if success d then
            (let st1 = remove_where (\<lambda>el. node el = m \<and> is_highlight_marker (body el)) st
             in st1\<lparr>allHighlights := filter (\<lambda>h. hl_id h \<noteq> ident) (allHighlights st1)\<rparr>)
          else alert (''Error: '' @ or_else (reply_error d) ''Failed to delete highlight'') st
      | Rejected \<Rightarrow>
          alert ''Network error: Failed to delete highlight''
            (console_error ''Delete highlight error:'' st))"

subsection \<open>Loading the annotations of the book\<close>

text \<open>\<open>preloadAnnotations\<close> starts both fetches before either has answered.\<close>

definition preloadAnnotations :: "'i viewer \<Rightarrow> 'i viewer \<times> 'i request list" where
  "preloadAnnotations st = (st, [GetNotes, GetHighlights])"

definition preload_failed :: "'i viewer \<Rightarrow> 'i viewer" where
  "preload_failed st = (console_error ''Failed to load annotations:'' st)\<lparr>allNotes := [], allHighlights := []\<rparr>"

fun array_or_empty :: "'a fetched \<Rightarrow> 'a list" where
  "array_or_empty (Array xs) = xs"
| "array_or_empty _ = []"

text \<open>
  The callbacks of \<open>Promise.all([...])\<close>: \<open>.then(([notes, highlights]) => ...)\<close> runs once,
  when both fetches have answered; \<open>.catch\<close> runs when one of them failed, and also when
  the first callback throws, which it does when \<open>$flipbook.turn('view')\<close> does
  (\<open>view = None\<close>).
\<close>

definition preloadAnnotations_then ::
  "'i Note fetched \<Rightarrow> 'i Highlight fetched \<Rightarrow> int list option \<Rightarrow> 'i viewer \<Rightarrow> 'i viewer" where
  "preloadAnnotations_then notes highlights view st =
     (if notes = FetchFailed \<or> highlights = FetchFailed then preload_failed st
      else
        (let st1 = st\<lparr>allNotes := array_or_empty notes, allHighlights := array_or_empty highlights\<rparr>
         in case view of
              None \<Rightarrow> preload_failed st1
            | Some currentView \<Rightarrow> load currentView st1))"

text \<open>The values of the module-level variables when the script has loaded.\<close>

definition initial :: "'i viewer \<Rightarrow> bool" where
  "initial st \<longleftrightarrow>
     currentMode st = None \<and> currentHighlightColor st = ''yellow'' \<and> allNotes st = [] \<and>
     allHighlights st = [] \<and> loaded st = {} \<and> highlightStart st = None \<and>
     highlightPreview st = None"

text \<open>
  The states the viewer can reach: from an initial state, by the toolbar buttons (the
  two modes named in the comment on \<open>currentMode\<close>, any colour), by pointer events, by
  rendering a view, and by the callbacks of the requests.
\<close>

inductive reachable :: "'i viewer \<Rightarrow> bool" where
  r_init: "initial st \<Longrightarrow> reachable st"
| r_toggle_note: "reachable st \<Longrightarrow> reachable (toggleMode (Some ''note'') st)"
| r_toggle_highlight: "reachable st \<Longrightarrow> reachable (toggleMode (Some ''highlight'') st)"
| r_color: "reachable st \<Longrightarrow> reachable (setHighlightColor c st)"
| r_click: "reachable st \<Longrightarrow> reachable (fst (layer_click p e answer st))"
| r_note_post: "reachable st \<Longrightarrow> reachable (note_post_then pageNum content x y resp st)"
| r_mousedown: "reachable st \<Longrightarrow> reachable (layer_mousedown p e st)"
| r_mousemove: "reachable st \<Longrightarrow> reachable (document_mousemove e st)"
| r_mouseup: "reachable st \<Longrightarrow> reachable (fst (document_mouseup e st))"
| r_highlight_post: "reachable st \<Longrightarrow> reachable (highlight_post_then pageNum r resp st)"
| r_delete_note: "reachable st \<Longrightarrow> reachable (deleteNote_then ident m resp st)"
| r_delete_highlight: "reachable st \<Longrightarrow> reachable (deleteHighlight_then ident m resp st)"
| r_preload: "reachable st \<Longrightarrow> reachable (preloadAnnotations_then notes highlights view st)"
| r_load: "reachable st \<Longrightarrow> reachable (load view st)"

section \<open>The Flipbook class\<close>

text \<open>
  A \<open>.page-wrapper\<close> element: its \<open>data-index\<close>, its \<open>z-index\<close>, whether its back page
  holds an image, and whether it carries the class \<open>flipped\<close>.
\<close>

record wrapper =
  w_index :: int
  w_zIndex :: int
  w_back_img :: bool
  w_flipped :: bool

text \<open>
  The fields of the object that the methods below use, with the children of \<open>#book\<close>
  and the numbers shown in the page indicator (\<open>Page a of b\<close>). \<open>window.totalPages\<close> is
  an integer.
\<close>

record flipbook =
  book :: "wrapper list"
  totalPages :: int
  currentSpread :: int
  isAnimating :: bool
  pageIndicator :: "int \<times> int"

text \<open>The loop of \<open>renderPages\<close>, from the value \<open>i\<close> of its counter.\<close>

function renderPages_from :: "int \<Rightarrow> flipbook \<Rightarrow> flipbook" where
  "renderPages_from i fb =
     (if i < totalPages fb then
        renderPages_from (i + 2)
          (fb\<lparr>book := book fb @
                 [\<lparr>w_index = i div 2 + 1, w_zIndex = totalPages fb - i,
                   w_back_img = (i + 1 < totalPages fb), w_flipped = False\<rparr>]\<rparr>)
      else fb)"
  by pat_completeness auto
termination
  by (relation "measure (\<lambda>(i, fb). nat (totalPages fb - i))") auto

declare renderPages_from.simps [simp del]

definition renderPages :: "flipbook \<Rightarrow> flipbook" where
  "renderPages fb = renderPages_from 0 fb"

definition updateUI :: "flipbook \<Rightarrow> flipbook" where
  "updateUI fb =
     (let pageNum = (currentSpread fb - 1) * 2 + 1;
          pageNum = (if pageNum > totalPages fb then totalPages fb else pageNum)
      in fb\<lparr>pageIndicator := (pageNum, totalPages fb)\<rparr>)"

text \<open>\<open>new Flipbook()\<close> on a page whose \<open>#book\<close> is empty, with \<open>window.totalPages = tp\<close>.\<close>

definition Flipbook :: "int \<Rightarrow> flipbook" where
  "Flipbook tp =
     updateUI (renderPages \<lparr>book = [], totalPages = tp, currentSpread = 1,
                            isAnimating = False, pageIndicator = (0, 0)\<rparr>)"

text \<open>\<open>this.book.querySelector('.page-wrapper[data-index="k"]')\<close>: the first match.\<close>

definition querySelector :: "int \<Rightarrow> wrapper list \<Rightarrow> wrapper option" where
  "querySelector k ws = find (\<lambda>w. w_index w = k) ws"

text \<open>\<open>classList.add("flipped")\<close> or \<open>.remove("flipped")\<close> on that first match.\<close>

fun set_flipped :: "int \<Rightarrow> bool \<Rightarrow> wrapper list \<Rightarrow> wrapper list" where
  "set_flipped k b [] = []"
| "set_flipped k b (w # ws) =
     (if w_index w = k then w\<lparr>w_flipped := b\<rparr> # ws else w # set_flipped k b ws)"

definition nextPage :: "flipbook \<Rightarrow> flipbook" where
  "nextPage fb =
     (if isAnimating fb then fb
      else case querySelector (currentSpread fb) (book fb) of
        None \<Rightarrow> fb
      | Some wrapper \<Rightarrow>
          updateUI (fb\<lparr>isAnimating := True,
                       book := set_flipped (currentSpread fb) True (book fb),
                       currentSpread := currentSpread fb + 1\<rparr>))"

definition prevPage :: "flipbook \<Rightarrow> flipbook" where
  "prevPage fb =
     (if isAnimating fb then fb
      else if currentSpread fb \<le> 1 then fb
      else
        (let fb1 = fb\<lparr>currentSpread := currentSpread fb - 1\<rparr>
         in case querySelector (currentSpread fb1) (book fb1) of
              None \<Rightarrow> fb1
            | Some wrapper \<Rightarrow>
                updateUI (fb1\<lparr>isAnimating := True,
                              book := set_flipped (currentSpread fb1) False (book fb1)\<rparr>)))"

text \<open>
  What happens to a Flipbook after its construction: the two methods (from the buttons,
  the arrow keys and swipes) and the timer that ends an animation.
\<close>

datatype fb_event = NextPage | PrevPage | AnimationEnd

fun fb_step :: "flipbook \<Rightarrow> fb_event \<Rightarrow> flipbook" where
  "fb_step fb NextPage = nextPage fb"
| "fb_step fb PrevPage = prevPage fb"
| "fb_step fb AnimationEnd = fb\<lparr>isAnimating := False\<rparr>"

definition fb_run :: "int \<Rightarrow> fb_event list \<Rightarrow> flipbook" where
  "fb_run tp evs = foldl fb_step (Flipbook tp) evs"

section \<open>Example documents\<close>

text \<open>A page whose layer sits at the origin and has the given size, with no annotations.\<close>

definition blank_page :: "real \<Rightarrow> real \<Rightarrow> 'i page" where
  "blank_page W H =
     \<lparr>layer_left = 0, layer_top = 0, layer_width = W, layer_height = H,
      has_img = True, children = []\<rparr>"

text \<open>The state when the script has loaded, over a document with the given pages.\<close>

definition on_load :: "(int \<Rightarrow> 'i page option) \<Rightarrow> 'i viewer" where
  "on_load pages =
     \<lparr>currentMode = None, currentHighlightColor = ''yellow'', allNotes = [], allHighlights = [],
      loaded = {}, highlightStart = None, highlightPreview = None, dom_pages = pages,
      next_node = 0, note_btn_active = False, highlight_btn_active = False,
      color_picker_shown = False, color_ring = None, body_cursor = ''default'',
      alerts = [], console_errors = []\<rparr>"

text \<open>A mouse event at a point, away from any delete control.\<close>

definition pointer_at :: "real \<Rightarrow> real \<Rightarrow> pointer" where
  "pointer_at px py =
     \<lparr>ev_clientX = px, ev_clientY = py, ev_pageX = px, ev_pageY = py, ev_on_delete = False\<rparr>"

text \<open>The drag of the scenario: from (10,10) on a page of 1000 by 700 pixels.\<close>

definition scenario :: "real \<Rightarrow> real \<Rightarrow> nat viewer \<times> nat request option" where
  "scenario ex ey =
     document_mouseup (pointer_at ex ey)
       (layer_mousedown 0 (pointer_at 10 10)
          (toggleMode (Some ''highlight'') (on_load [0 \<mapsto> blank_page 1000 700])))"

text \<open>
  A drag of 10 pixels, from (55,40) to (65,40), on a page of 1000 by 700 pixels whose
  layer lies 0.1 pixels from the left edge (\<open>tenth\<close> is the double nearest to 0.1).
\<close>

definition tenth :: real where
  "tenth = fl (1 / 10)"

definition boundary_drag :: "nat viewer \<times> nat request option" where
  "boundary_drag =
     document_mouseup (pointer_at 65 40)
       (layer_mousedown 0 (pointer_at 55 40)
          (toggleMode (Some ''highlight'')
             (on_load [0 \<mapsto> (blank_page 1000 700)\<lparr>layer_left := tenth\<rparr>])))"

text \<open>A note of page 0, and the state after its creation has succeeded.\<close>

definition hi_note :: "nat Note" where
  "hi_note = \<lparr>note_id = 1, note_page_number = 0, note_content = ''hi'', note_x = 10, note_y = 20\<rparr>"

definition noted :: "nat viewer" where
  "noted = note_post_then 0 ''hi'' 10 20 (Json \<lparr>success = True, reply_id = 1, reply_error = None\<rparr>)
             (on_load [0 \<mapsto> blank_page 500 700])"

text \<open>
  Two notes of page 0 whose text closes the \<open>title\<close> attribute and the marker and opens
  another element.
\<close>

definition split_note :: "nat Note" where
  \<open>split_note =
     \<lparr>note_id = 1, note_page_number = 0,
      note_content = ''x"></div><div class=note-marker title="y'', note_x = 10, note_y = 20\<rparr>\<close>

definition stray_note :: "nat Note" where
  \<open>stray_note =
     \<lparr>note_id = 1, note_page_number = 0,
      note_content = ''x"></div><div class=stray title="y'', note_x = 10, note_y = 20\<rparr>\<close>

text \<open>A highlight of page 0 whose colour is not in the palette.\<close>

definition red_highlight :: "nat Highlight" where
  "red_highlight =
     \<lparr>hl_id = 1, hl_page_number = 0,
      hl_coordinates = \<lparr>rect_x = 1, rect_y = 1, rect_w = 20, rect_h = 20\<rparr>, hl_color = Some ''red''\<rparr>"

section \<open>Notions used in the properties\<close>

text \<open>The markers in the layer of page \<open>k\<close>.\<close>

definition markers :: "'i viewer \<Rightarrow> int \<Rightarrow> 'i element list" where
  "markers st k =
     (case dom_pages st k of
        None \<Rightarrow> []
      | Some pg \<Rightarrow> filter (\<lambda>e. is_marker (body e)) (children pg))"

text \<open>What the layer of page \<open>k\<close> shows: its children without their node identities.\<close>

definition layer_bodies :: "'i viewer \<Rightarrow> int \<Rightarrow> 'i body list option" where
  "layer_bodies st k = map_option (\<lambda>pg. map body (children pg)) (dom_pages st k)"

text \<open>
  The coordinates of a pointer event relative to a layer, and a length as a percentage
  of a size, as the drag handlers compute them.
\<close>

definition rel_x :: "'i page \<Rightarrow> pointer \<Rightarrow> real" where
  "rel_x pg e = js_sub (ev_clientX e) (layer_left pg)"

definition rel_y :: "'i page \<Rightarrow> pointer \<Rightarrow> real" where
  "rel_y pg e = js_sub (ev_clientY e) (layer_top pg)"

definition percent :: "real \<Rightarrow> real \<Rightarrow> real" where
  "percent v d = js_mul (js_div v d) 100"

text \<open>
  The invariant of a Flipbook: the wrappers carry the indices \<open>1, ..., n\<close> in order, and
  \<open>currentSpread\<close> lies between \<open>1\<close> and \<open>n + 1\<close>.
\<close>

definition fb_inv :: "flipbook \<Rightarrow> bool" where
  "fb_inv fb \<longleftrightarrow>
     map w_index (book fb) = [1..int (length (book fb))] \<and>
     1 \<le> currentSpread fb \<and> currentSpread fb \<le> int (length (book fb)) + 1"

section \<open>Properties\<close>

subsection \<open>Rounding\<close>

text \<open>The definitions of the numbers, for evaluating an operation on given numbers.\<close>

lemmas fl_eval = fl_def binade_def round_even_def pow2_def Let_def bitlen.simps
  js_sub_def js_mul_def js_div_def

lemma round_even_of_int [simp]: "round_even (of_int k) = k"
  by (simp add: round_even_def)

lemma round_even_uminus: "round_even (- r) = - round_even r"
proof (cases "r = of_int \<lfloor>r\<rfloor>")
  case True
  then obtain k where "r = of_int k" ..
  then have "- r = of_int (- k)" by simp
  then show ?thesis using \<open>r = of_int k\<close> by (simp only: round_even_of_int)
next
  case False
  define f where "f = \<lfloor>r\<rfloor>"
  have "of_int f \<le> r" "r < of_int f + 1" unfolding f_def by linarith+
  moreover have "r \<noteq> of_int f" using False by (simp add: f_def)
  ultimately have lt: "of_int f < r" and lt2: "r < of_int f + 1" by simp_all
  have "of_int (- f - 1) \<le> - r" using lt2 by simp
  moreover have "- r < of_int (- f - 1) + 1" using lt by simp
  ultimately have fl: "\<lfloor>- r\<rfloor> = - f - 1" by (rule floor_unique)
  have "round_even (- r) =
      (if - r - of_int (- f - 1) < 1 / 2 then - f - 1
       else if 1 / 2 < - r - of_int (- f - 1) then - f - 1 + 1
       else if even (- f - 1) then - f - 1 else - f - 1 + 1)"
    unfolding round_even_def Let_def fl ..
  moreover have "round_even r =
      (if r - of_int f < 1 / 2 then f else if 1 / 2 < r - of_int f then f + 1
       else if even f then f else f + 1)"
    unfolding round_even_def Let_def f_def ..
  ultimately show ?thesis
    using lt lt2 by (auto simp: algebra_simps)
qed

lemma round_even_nonneg: "0 \<le> r \<Longrightarrow> 0 \<le> round_even r"
  by (auto simp: round_even_def Let_def)

lemma pow2_pos [simp]: "0 < pow2 k"
  by (simp add: pow2_def)

lemma binade_uminus [simp]: "binade (- x) = binade x"
  by (simp add: binade_def)

lemma fl_uminus: "fl (- x) = - fl x"
  by (simp add: fl_def Let_def round_even_uminus)

lemma fl_nonneg:
  assumes "0 \<le> x"
  shows "0 \<le> fl x"
proof (cases "x = 0")
  case True
  then show ?thesis by (simp add: fl_def)
next
  case False
  let ?q = "pow2 (max (binade x) (- 1022) - 52)"
  have "0 \<le> x / ?q" using assms by (simp add: divide_nonneg_pos)
  then have "0 \<le> round_even (x / ?q)" by (rule round_even_nonneg)
  then have "0 \<le> of_int (round_even (x / ?q)) * ?q"
    by (simp add: mult_nonneg_nonneg less_imp_le)
  then show ?thesis using False by (simp add: fl_def Let_def)
qed

lemma bitlen_le: "n < 2 ^ k \<Longrightarrow> bitlen n \<le> k"
proof (induction n arbitrary: k rule: bitlen.induct)
  case (1 n)
  show ?case
  proof (cases "n = 0")
    case True
    then show ?thesis by (simp add: bitlen.simps)
  next
    case False
    with "1.prems" obtain k' where k: "k = Suc k'" by (cases k) auto
    with "1.prems" have "n div 2 < 2 ^ k'" by auto
    from "1.IH" [OF False this] show ?thesis
      using False k by (subst bitlen.simps) simp
  qed
qed

lemma fl_of_int:
  assumes "\<bar>n\<bar> < 2 ^ 53"
  shows "fl (of_int n) = of_int n"
proof (cases "n = 0")
  case True
  then show ?thesis by (simp add: fl_def)
next
  case False
  then have "1 \<le> \<bar>n\<bar>" by simp
  then have "real_of_int 1 \<le> real_of_int \<bar>n\<bar>" by (simp only: of_int_le_iff)
  then have a1: "1 \<le> \<bar>real_of_int n\<bar>" by simp
  have "nat \<bar>n\<bar> < 2 ^ 53" using assms by (simp add: nat_less_iff)
  then have b: "bitlen (nat \<bar>n\<bar>) \<le> 53" by (rule bitlen_le)
  have "\<bar>real_of_int n\<bar> = real_of_int \<bar>n\<bar>" by simp
  then have "\<lfloor>\<bar>real_of_int n\<bar>\<rfloor> = \<bar>n\<bar>" by (simp only: floor_of_int)
  with a1 have e: "binade (of_int n) = int (bitlen (nat \<bar>n\<bar>)) - 1"
    by (simp add: binade_def)
  define m where "m = nat (52 - max (binade (of_int n)) (- 1022))"
  have le: "max (binade (of_int n)) (- 1022) - 52 \<le> 0" using b e by simp
  have q: "pow2 (max (binade (of_int n)) (- 1022) - 52) = 1 / 2 ^ m"
  proof (cases "max (binade (of_int n)) (- 1022) - 52 = 0")
    case True
    then show ?thesis by (simp add: pow2_def m_def)
  next
    case False
    with le have "max (binade (of_int n)) (- 1022) - 52 < 0" by simp
    then show ?thesis by (simp add: pow2_def m_def)
  qed
  have "real_of_int n / (1 / 2 ^ m) = of_int (n * 2 ^ m)" by simp
  then have "round_even (real_of_int n / (1 / 2 ^ m)) = n * 2 ^ m"
    by (simp only: round_even_of_int)
  then show ?thesis
    using False by (simp add: fl_def Let_def q)
qed

lemma js_sub_of_int:
  "\<bar>a - b\<bar> < 2 ^ 53 \<Longrightarrow> js_sub (of_int a) (of_int b) = of_int (a - b)"
  using fl_of_int [of "a - b"] by (simp add: js_sub_def)

lemma js_sub_commute_abs: "\<bar>js_sub a b\<bar> = \<bar>js_sub b a\<bar>"
proof -
  have "js_sub a b = - js_sub b a"
    using fl_uminus [of "b - a"] by (simp add: js_sub_def)
  then show ?thesis by simp
qed

text \<open>The operations that the examples need.\<close>

lemma js_facts:
  "js_sub 10 0 = 10" "js_sub 12 0 = 12" "js_sub 11 0 = 11" "js_sub 150 0 = 150"
  "js_sub 12 10 = 2" "js_sub 11 10 = 1" "js_sub 150 10 = 140"
  "js_sub 50 0 = 50" "js_sub 70 0 = 70" "js_sub 40 0 = 40" "js_sub 40 40 = 0"
  "js_mul (js_div 10 1000) 100 = 1"
  "js_mul (js_div 10 700) 100 = 6433713753386423 / 4503599627370496"
  "js_mul (js_div 140 1000) 100 = 7881299347898369 / 562949953421312"
  "js_mul (js_div 140 700) 100 = 20"
  "js_mul (js_div 50 500) 100 = 10" "js_mul (js_div 70 700) 100 = 10"
  "js_mul (js_div 40 700) 100 = 6433713753386423 / 1125899906842624"
  "js_mul (js_div 0 700) 100 = 0"
  by (simp_all add: fl_eval)

lemma tenth_facts:
  "js_sub 55 tenth = 7726488110707507 / 140737488355328"
  "js_sub 65 tenth = 2283465748565197 / 35184372088832"
  "js_sub (2283465748565197 / 35184372088832) (7726488110707507 / 140737488355328)
     = 1407374883553281 / 140737488355328"
  "js_mul (js_div (7726488110707507 / 140737488355328) 1000) 100
     = 6181190488566005 / 1125899906842624"
  "js_mul (js_div (1407374883553281 / 140737488355328) 1000) 100
     = 4503599627370499 / 4503599627370496"
  by (simp_all add: tenth_def fl_eval)

subsection \<open>What the DOM operations leave alone\<close>

lemma append_to_layer_fields [simp]:
  "currentMode (append_to_layer p el st) = currentMode st"
  "currentHighlightColor (append_to_layer p el st) = currentHighlightColor st"
  "allNotes (append_to_layer p el st) = allNotes st"
  "allHighlights (append_to_layer p el st) = allHighlights st"
  "alerts (append_to_layer p el st) = alerts st"
  "console_errors (append_to_layer p el st) = console_errors st"
  "next_node (append_to_layer p el st) = next_node st"
  "loaded (append_to_layer p el st) = loaded st"
  by (simp_all add: append_to_layer_def split: option.splits)

lemma remove_where_fields [simp]:
  "currentMode (remove_where P st) = currentMode st"
  "currentHighlightColor (remove_where P st) = currentHighlightColor st"
  "allNotes (remove_where P st) = allNotes st"
  "allHighlights (remove_where P st) = allHighlights st"
  "alerts (remove_where P st) = alerts st"
  "console_errors (remove_where P st) = console_errors st"
  "next_node (remove_where P st) = next_node st"
  "loaded (remove_where P st) = loaded st"
  by (simp_all add: remove_where_def)

lemma css_node_fields [simp]:
  "currentMode (css_node n b st) = currentMode st"
  "currentHighlightColor (css_node n b st) = currentHighlightColor st"
  "allNotes (css_node n b st) = allNotes st"
  "allHighlights (css_node n b st) = allHighlights st"
  "alerts (css_node n b st) = alerts st"
  "console_errors (css_node n b st) = console_errors st"
  "next_node (css_node n b st) = next_node st"
  "loaded (css_node n b st) = loaded st"
  by (simp_all add: css_node_def)

lemma remove_markers_fields [simp]:
  "currentMode (remove_markers p st) = currentMode st"
  "currentHighlightColor (remove_markers p st) = currentHighlightColor st"
  "allNotes (remove_markers p st) = allNotes st"
  "allHighlights (remove_markers p st) = allHighlights st"
  "alerts (remove_markers p st) = alerts st"
  "console_errors (remove_markers p st) = console_errors st"
  "next_node (remove_markers p st) = next_node st"
  "loaded (remove_markers p st) = loaded st"
  by (simp_all add: remove_markers_def split: option.splits)

lemma alert_fields [simp]:
  "currentMode (alert msg st) = currentMode st"
  "currentHighlightColor (alert msg st) = currentHighlightColor st"
  "allNotes (alert msg st) = allNotes st"
  "allHighlights (alert msg st) = allHighlights st"
  "alerts (alert msg st) = alerts st @ [msg]"
  "console_errors (alert msg st) = console_errors st"
  "dom_pages (alert msg st) = dom_pages st"
  "next_node (alert msg st) = next_node st"
  "loaded (alert msg st) = loaded st"
  by (simp_all add: alert_def)

lemma console_error_fields [simp]:
  "currentMode (console_error msg st) = currentMode st"
  "currentHighlightColor (console_error msg st) = currentHighlightColor st"
  "allNotes (console_error msg st) = allNotes st"
  "allHighlights (console_error msg st) = allHighlights st"
  "alerts (console_error msg st) = alerts st"
  "console_errors (console_error msg st) = console_errors st @ [msg]"
  "dom_pages (console_error msg st) = dom_pages st"
  "next_node (console_error msg st) = next_node st"
  "loaded (console_error msg st) = loaded st"
  by (simp_all add: console_error_def)

lemma renderNote_fields [simp]:
  "currentMode (renderNote n p st) = currentMode st"
  "currentHighlightColor (renderNote n p st) = currentHighlightColor st"
  "allNotes (renderNote n p st) = allNotes st"
  "allHighlights (renderNote n p st) = allHighlights st"
  "alerts (renderNote n p st) = alerts st"
  "console_errors (renderNote n p st) = console_errors st"
  "next_node (renderNote n p st) = Suc (next_node st)"
  "loaded (renderNote n p st) = loaded st"
  by (simp_all add: renderNote_def create_element_def)

lemma renderHighlight_fields [simp]:
  "currentMode (renderHighlight h p st) = currentMode st"
  "currentHighlightColor (renderHighlight h p st) = currentHighlightColor st"
  "allNotes (renderHighlight h p st) = allNotes st"
  "allHighlights (renderHighlight h p st) = allHighlights st"
  "alerts (renderHighlight h p st) = alerts st"
  "console_errors (renderHighlight h p st) = console_errors st"
  "next_node (renderHighlight h p st) = Suc (next_node st)"
  "loaded (renderHighlight h p st) = loaded st"
  by (simp_all add: renderHighlight_def create_element_def)

lemma foldl_renderNote_fields [simp]:
  "currentMode (foldl (\<lambda>s n. renderNote n p s) st ns) = currentMode st"
  "currentHighlightColor (foldl (\<lambda>s n. renderNote n p s) st ns) = currentHighlightColor st"
  "allNotes (foldl (\<lambda>s n. renderNote n p s) st ns) = allNotes st"
  "allHighlights (foldl (\<lambda>s n. renderNote n p s) st ns) = allHighlights st"
  "alerts (foldl (\<lambda>s n. renderNote n p s) st ns) = alerts st"
  "console_errors (foldl (\<lambda>s n. renderNote n p s) st ns) = console_errors st"
  "loaded (foldl (\<lambda>s n. renderNote n p s) st ns) = loaded st"
  by (induction ns arbitrary: st) simp_all

lemma foldl_renderHighlight_fields [simp]:
  "currentMode (foldl (\<lambda>s h. renderHighlight h p s) st hs) = currentMode st"
  "currentHighlightColor (foldl (\<lambda>s h. renderHighlight h p s) st hs) = currentHighlightColor st"
  "allNotes (foldl (\<lambda>s h. renderHighlight h p s) st hs) = allNotes st"
  "allHighlights (foldl (\<lambda>s h. renderHighlight h p s) st hs) = allHighlights st"
  "alerts (foldl (\<lambda>s h. renderHighlight h p s) st hs) = alerts st"
  "console_errors (foldl (\<lambda>s h. renderHighlight h p s) st hs) = console_errors st"
  "loaded (foldl (\<lambda>s h. renderHighlight h p s) st hs) = loaded st"
  by (induction hs arbitrary: st) simp_all

lemma loadAnnotations_fields [simp]:
  "currentMode (loadAnnotations n p st) = currentMode st"
  "currentHighlightColor (loadAnnotations n p st) = currentHighlightColor st"
  "allNotes (loadAnnotations n p st) = allNotes st"
  "allHighlights (loadAnnotations n p st) = allHighlights st"
  "alerts (loadAnnotations n p st) = alerts st"
  "console_errors (loadAnnotations n p st) = console_errors st"
  "loaded (loadAnnotations n p st) = loaded st"
  by (simp_all add: loadAnnotations_def Let_def)

lemma load_entry_fields [simp]:
  "currentMode (load_entry v st) = currentMode st"
  "currentHighlightColor (load_entry v st) = currentHighlightColor st"
  "allNotes (load_entry v st) = allNotes st"
  "allHighlights (load_entry v st) = allHighlights st"
  "alerts (load_entry v st) = alerts st"
  "console_errors (load_entry v st) = console_errors st"
  by (simp_all add: load_entry_def Let_def split: option.splits)

lemma load_fields [simp]:
  "currentMode (load view st) = currentMode st"
  "currentHighlightColor (load view st) = currentHighlightColor st"
  "allNotes (load view st) = allNotes st"
  "allHighlights (load view st) = allHighlights st"
  "alerts (load view st) = alerts st"
  "console_errors (load view st) = console_errors st"
  unfolding load_def by (induction view arbitrary: st) simp_all

lemma setMode_fields [simp]:
  "currentMode (setMode m st) = m"
  "currentHighlightColor (setMode m st) = currentHighlightColor st"
  "allNotes (setMode m st) = allNotes st"
  "allHighlights (setMode m st) = allHighlights st"
  "alerts (setMode m st) = alerts st"
  "console_errors (setMode m st) = console_errors st"
  "dom_pages (setMode m st) = dom_pages st"
  "next_node (setMode m st) = next_node st"
  "highlightStart (setMode m st) = highlightStart st"
  "highlightPreview (setMode m st) = highlightPreview st"
  by (simp_all add: setMode_def Let_def)


subsection \<open>Interaction mode\<close>

lemma reachable_mode: "reachable st \<Longrightarrow> currentMode st \<in> {None, Some ''note'', Some ''highlight''}"
proof (induction rule: reachable.induct)
  case (r_init st)
  then show ?case by (simp add: initial_def)
next
  case (r_click st p e answer)
  then show ?case by (auto simp: layer_click_def Let_def split: option.splits)
next
  case (r_mouseup st e)
  then show ?case by (auto simp: document_mouseup_def Let_def split: option.splits)
next
  case (r_mousedown st p e)
  then show ?case
    by (auto simp: layer_mousedown_def Let_def create_element_def split: option.splits prod.splits)
qed (auto simp: toggleMode_def setHighlightColor_def note_post_then_def highlight_post_then_def
      document_mousemove_def deleteNote_then_def deleteHighlight_then_def Let_def
      preloadAnnotations_then_def preload_failed_def
      split: option.splits response.splits)


text \<open>
  C5. In every reachable state the mode is one of browse (\<open>null\<close>), placing-note and
  drawing-highlight. \<open>toggleMode(mode)\<close> goes to browse when the current mode is \<open>mode\<close>
  and to \<open>mode\<close> otherwise; toggling note and then highlight leaves highlight, and only
  highlight, active; toggling the active mode returns to browse.
\<close>

theorem toggleMode_exclusive:
  "(reachable st \<longrightarrow>
      currentMode st = None \<or> currentMode st = Some ''note'' \<or> currentMode st = Some ''highlight'')
   \<and> currentMode (toggleMode mode st) = (if currentMode st = mode then None else mode)
   \<and> currentMode (toggleMode (Some ''highlight'') (toggleMode (Some ''note'') st)) = Some ''highlight''
   \<and> highlight_btn_active (toggleMode (Some ''highlight'') (toggleMode (Some ''note'') st))
   \<and> \<not> note_btn_active (toggleMode (Some ''highlight'') (toggleMode (Some ''note'') st))
   \<and> currentMode (toggleMode (currentMode st) st) = None"
  using reachable_mode [of st] by (auto simp: toggleMode_def setMode_def Let_def)

theorem toggleMode_exclusive_witness:
  "reachable (toggleMode (Some ''note'') (on_load Map.empty :: nat viewer))
   \<and> currentMode (toggleMode (Some ''note'') (on_load Map.empty :: nat viewer)) = Some ''note''"
proof -
  have "initial (on_load Map.empty :: nat viewer)"
    by (simp add: initial_def on_load_def)
  then have r: "reachable (toggleMode (Some ''note'') (on_load Map.empty :: nat viewer))"
    by (intro r_toggle_note r_init)
  from toggleMode_exclusive [of "toggleMode (Some ''note'') (on_load Map.empty :: nat viewer)"] r
  show ?thesis by (simp add: toggleMode_def on_load_def)
qed

subsection \<open>Creating annotations\<close>


lemma dom_pages_renderHighlight:
  "dom_pages (renderHighlight h p st) =
     (case dom_pages st p of None \<Rightarrow> dom_pages st
      | Some pg \<Rightarrow> (dom_pages st)(p \<mapsto> pg\<lparr>children := children pg @
           [\<lparr>node = next_node st, body = HighlightMarker (colorClass h) h\<rparr>]\<rparr>))"
  by (simp add: renderHighlight_def create_element_def append_to_layer_def split: option.splits)

lemma layer_click_cache:
  "allNotes (fst (layer_click p e answer st)) = allNotes st"
  "allHighlights (fst (layer_click p e answer st)) = allHighlights st"
  "dom_pages (fst (layer_click p e answer st)) = dom_pages st"
  "alerts (fst (layer_click p e answer st)) = alerts st"
  "console_errors (fst (layer_click p e answer st)) = console_errors st"
  by (simp_all add: layer_click_def Let_def split: option.splits)

lemma document_mouseup_cache:
  "allNotes (fst (document_mouseup e st)) = allNotes st"
  "allHighlights (fst (document_mouseup e st)) = allHighlights st"
  "alerts (fst (document_mouseup e st)) = alerts st"
  "console_errors (fst (document_mouseup e st)) = console_errors st"
  by (simp_all add: document_mouseup_def Let_def split: option.splits)

lemma markers_upd [simp]:
  "markers (highlightStart_update f st) k = markers st k"
  "markers (highlightPreview_update g st) k = markers st k"
  by (simp_all add: markers_def)





lemma highlight_post_success:
  assumes "success d"
  shows "allHighlights (highlight_post_then p r (Json d) st) =
           allHighlights st @ [\<lparr>hl_id = reply_id d, hl_page_number = p, hl_coordinates = r,
                                 hl_color = Some (currentHighlightColor st)\<rparr>]"
    and "allNotes (highlight_post_then p r (Json d) st) = allNotes st"
    and "alerts (highlight_post_then p r (Json d) st) = alerts st"
    and "dom_pages st p = Some pg \<Longrightarrow> dom_pages (highlight_post_then p r (Json d) st) =
          (dom_pages st)(p \<mapsto> pg\<lparr>children := children pg @ [\<lparr>node = next_node st, body =
             HighlightMarker (''highlight-'' @ or_else (Some (currentHighlightColor st)) ''yellow'')
             \<lparr>hl_id = reply_id d, hl_page_number = p, hl_coordinates = r,
              hl_color = Some (currentHighlightColor st)\<rparr>\<rparr>]\<rparr>)"
  using assms by (simp_all add: highlight_post_then_def Let_def dom_pages_renderHighlight colorClass_def)




subsection \<open>Cancelled prompt\<close>

text \<open>
  C8. When the prompt of the note handler is cancelled or returns the empty string, no
  request is sent, both caches and the document are unchanged, and nothing is shown to
  the user or logged.
\<close>

theorem empty_prompt_aborts:
  assumes "answer = None \<or> answer = Some []"
  shows "snd (layer_click p e answer st) = None
   \<and> allNotes (fst (layer_click p e answer st)) = allNotes st
   \<and> allHighlights (fst (layer_click p e answer st)) = allHighlights st
   \<and> dom_pages (fst (layer_click p e answer st)) = dom_pages st
   \<and> alerts (fst (layer_click p e answer st)) = alerts st
   \<and> console_errors (fst (layer_click p e answer st)) = console_errors st"
proof -
  have "snd (layer_click p e answer st) = None"
    using assms by (auto simp: layer_click_def Let_def split: option.splits)
  then show ?thesis by (simp add: layer_click_cache)
qed

theorem empty_prompt_aborts_witness:
  "snd (layer_click 0 (pointer_at 50 70) (Some [])
          (toggleMode (Some ''note'') (on_load [0 \<mapsto> blank_page 500 700] :: nat viewer))) = None
   \<and> snd (layer_click 0 (pointer_at 50 70) (Some ''hi'')
          (toggleMode (Some ''note'') (on_load [0 \<mapsto> blank_page 500 700] :: nat viewer)))
       = Some (PostNote 0 ''hi'' 10 10)
   \<and> alerts (fst (layer_click 0 (pointer_at 50 70) (Some [])
          (toggleMode (Some ''note'') (on_load [0 \<mapsto> blank_page 500 700] :: nat viewer)))) = []"
proof -
  let ?st = "toggleMode (Some ''note'') (on_load [0 \<mapsto> blank_page 500 700] :: nat viewer)"
  have h: "Some [] = None \<or> Some [] = Some ([] :: string)" by simp
  have a: "alerts ?st = []" by (simp add: toggleMode_def on_load_def)
  have b: "snd (layer_click 0 (pointer_at 50 70) (Some ''hi'') ?st) = Some (PostNote 0 ''hi'' 10 10)"
    by (simp add: layer_click_def toggleMode_def setMode_def on_load_def blank_page_def
          pointer_at_def truthy_def Let_def js_facts)
  from empty_prompt_aborts [OF h, of 0 "pointer_at 50 70" ?st] a b
  show ?thesis by simp
qed

subsection \<open>The drag of a highlight\<close>

lemma layer_mousedown_open:
  assumes "currentMode st = Some ''highlight''" "\<not> ev_on_delete e0" "dom_pages st p = Some pg"
  shows "highlightStart (layer_mousedown p e0 st) =
           Some \<lparr>drag_x = rel_x pg e0, drag_y = rel_y pg e0,
                 drag_pageNum = p, drag_offset_left = layer_left pg, drag_offset_top = layer_top pg\<rparr>"
    and "highlightPreview (layer_mousedown p e0 st) = Some (next_node st)"
    and "dom_pages (layer_mousedown p e0 st) p =
           Some (pg\<lparr>children := children pg @
              [\<lparr>node = next_node st,
                body = HighlightPreview (fst (preview_style (currentHighlightColor st)))
                         (snd (preview_style (currentHighlightColor st))) None\<rparr>]\<rparr>)"
    and "currentHighlightColor (layer_mousedown p e0 st) = currentHighlightColor st"
    and "allHighlights (layer_mousedown p e0 st) = allHighlights st"
    and "allNotes (layer_mousedown p e0 st) = allNotes st"
  using assms
  by (simp_all add: layer_mousedown_def Let_def create_element_def append_to_layer_def
        rel_x_def rel_y_def)

text \<open>The request of a drag from \<open>e0\<close> to \<open>e1\<close> on the layer of page \<open>p\<close>.\<close>

lemma mouseup_request:
  fixes st :: "'i viewer"
  assumes "currentMode st = Some ''highlight''" "\<not> ev_on_delete e0" "dom_pages st p = Some pg"
  shows "snd (document_mouseup e1 (layer_mousedown p e0 st)) =
     (if \<bar>js_sub (rel_x pg e1) (rel_x pg e0)\<bar> > 10 \<or> \<bar>js_sub (rel_y pg e1) (rel_y pg e0)\<bar> > 10 then
        Some (PostHighlight p
                \<lparr>rect_x = percent (min (rel_x pg e0) (rel_x pg e1)) (layer_width pg),
                 rect_y = percent (min (rel_y pg e0) (rel_y pg e1)) (layer_height pg),
                 rect_w = percent \<bar>js_sub (rel_x pg e1) (rel_x pg e0)\<bar> (layer_width pg),
                 rect_h = percent \<bar>js_sub (rel_y pg e1) (rel_y pg e0)\<bar> (layer_height pg)\<rparr>
                (currentHighlightColor st))
      else None)"
proof -
  note o = layer_mousedown_open [OF assms]
  have r: "js_sub (ev_clientX e1) (layer_left pg) = rel_x pg e1"
    "js_sub (ev_clientY e1) (layer_top pg) = rel_y pg e1"
    by (simp_all add: rel_x_def rel_y_def)
  show ?thesis
    unfolding document_mouseup_def Let_def
    by (simp add: o normalized_def r percent_def del: min_less_iff_conj)
qed

text \<open>The box of the preview after a move to \<open>e1\<close>.\<close>

lemma mousemove_preview:
  fixes st :: "'i viewer"
  assumes "currentMode st = Some ''highlight''" "\<not> ev_on_delete e0" "dom_pages st p = Some pg"
  shows "\<exists>pg'. dom_pages (document_mousemove e1 (layer_mousedown p e0 st)) p = Some pg' \<and>
           last (children pg') =
             \<lparr>node = next_node st,
              body = HighlightPreview (fst (preview_style (currentHighlightColor st)))
                       (snd (preview_style (currentHighlightColor st)))
                       (Some \<lparr>box_left = min (rel_x pg e0) (rel_x pg e1),
                              box_top = min (rel_y pg e0) (rel_y pg e1),
                              box_width = \<bar>js_sub (rel_x pg e1) (rel_x pg e0)\<bar>,
                              box_height = \<bar>js_sub (rel_y pg e1) (rel_y pg e0)\<bar>\<rparr>)\<rparr>"
proof -
  note o = layer_mousedown_open [OF assms]
  have r: "js_sub (ev_clientX e1) (layer_left pg) = rel_x pg e1"
    "js_sub (ev_clientY e1) (layer_top pg) = rel_y pg e1"
    by (simp_all add: rel_x_def rel_y_def)
  show ?thesis
    unfolding document_mousemove_def Let_def
    by (simp add: o css_node_def normalized_def r)
qed

lemma percent_nonneg: "0 \<le> v \<Longrightarrow> 0 < d \<Longrightarrow> 0 \<le> percent v d"
  by (simp add: percent_def js_mul_def js_div_def fl_nonneg)

lemma normalized_swap: "normalized x2 y2 x1 y1 = normalized x1 y1 x2 y2"
  by (simp add: normalized_def min.commute js_sub_commute_abs [of x1 x2]
        js_sub_commute_abs [of y1 y2])

lemma drag_direction:
  fixes st :: "'i viewer"
  assumes "currentMode st = Some ''highlight''" "\<not> ev_on_delete e0" "\<not> ev_on_delete e1"
    "dom_pages st p = Some pg"
  shows "snd (document_mouseup e0 (layer_mousedown p e1 st)) =
         snd (document_mouseup e1 (layer_mousedown p e0 st))"
  by (simp add: mouseup_request [OF assms(1,2,4)] mouseup_request [OF assms(1,3,4)]
        min.commute js_sub_commute_abs [of "rel_x pg e0" "rel_x pg e1"]
        js_sub_commute_abs [of "rel_y pg e0" "rel_y pg e1"])

text \<open>With integer coordinates and offsets the subtractions are exact.\<close>

lemma rel_int:
  assumes "v0 = of_int a" "v1 = of_int b" "off = of_int l" "\<bar>a - l\<bar> < 2 ^ 52" "\<bar>b - l\<bar> < 2 ^ 52"
  shows "js_sub v0 off = of_int (a - l)" "js_sub v1 off = of_int (b - l)"
    "js_sub (js_sub v1 off) (js_sub v0 off) = of_int (b - a)"
proof -
  have 1: "\<bar>a - l\<bar> < 2 ^ 53" "\<bar>b - l\<bar> < 2 ^ 53" using assms(4,5) by simp_all
  have 2: "\<bar>(b - l) - (a - l)\<bar> < 2 ^ 53" using assms(4,5) by simp
  show a: "js_sub v0 off = of_int (a - l)" and b: "js_sub v1 off = of_int (b - l)"
    using js_sub_of_int [OF 1(1)] js_sub_of_int [OF 1(2)] assms(1-3) by simp_all
  show "js_sub (js_sub v1 off) (js_sub v0 off) = of_int (b - a)"
    unfolding a b using js_sub_of_int [OF 2] by simp
qed

lemma scenario_request:
  "snd (scenario 12 11) = None"
  "snd (scenario 150 150) =
     Some (PostHighlight 0
       \<lparr>rect_x = 1, rect_y = 6433713753386423 / 4503599627370496,
        rect_w = 7881299347898369 / 562949953421312, rect_h = 20\<rparr> ''yellow'')"
  by (simp_all add: scenario_def document_mouseup_def layer_mousedown_def toggleMode_def
        setMode_def on_load_def blank_page_def pointer_at_def create_element_def
        append_to_layer_def normalized_def Let_def js_facts)

lemma scenario_state:
  "allHighlights (fst (scenario ex ey)) = []"
  "currentHighlightColor (fst (scenario ex ey)) = ''yellow''"
  by (simp_all add: scenario_def document_mouseup_def layer_mousedown_def toggleMode_def
        setMode_def on_load_def blank_page_def pointer_at_def create_element_def
        append_to_layer_def Let_def remove_where_def split: option.splits)

lemma boundary_drag_request:
  "snd boundary_drag =
     Some (PostHighlight 0
       \<lparr>rect_x = 6181190488566005 / 1125899906842624,
        rect_y = 6433713753386423 / 1125899906842624,
        rect_w = 4503599627370499 / 4503599627370496, rect_h = 0\<rparr> ''yellow'')"
  by (simp add: boundary_drag_def document_mouseup_def layer_mousedown_def
        toggleMode_def setMode_def on_load_def blank_page_def pointer_at_def create_element_def
        append_to_layer_def normalized_def Let_def js_facts tenth_facts)

text \<open>
  C3, as stated, fails in two places. On a layer that lies 0.1 pixels from the left edge,
  the drag from (55,40) to (65,40) has the pixel deltas 10 and 0, both within the
  threshold, and still sends a request: the handler computes the horizontal delta from
  the two rounded relative coordinates as \<open>10 + 2^(-47)\<close>. And on the layer of 1000 by
  700 pixels the drag from (10,10) to (150,150) sends the width \<open>14 + 2^(-49)\<close>, not 14.
\<close>

theorem drag_threshold_counterexample:
  "\<bar>ev_clientX (pointer_at 65 40) - ev_clientX (pointer_at 55 40)\<bar> \<le> 10
   \<and> \<bar>ev_clientY (pointer_at 65 40) - ev_clientY (pointer_at 55 40)\<bar> \<le> 10
   \<and> snd boundary_drag \<noteq> None
   \<and> js_sub (js_sub 65 tenth) (js_sub 55 tenth) = 10 + 1 / 2 ^ 47
   \<and> snd (scenario 150 150) \<noteq>
       Some (PostHighlight 0
         \<lparr>rect_x = 1, rect_y = 6433713753386423 / 4503599627370496, rect_w = 14, rect_h = 20\<rparr>
         ''yellow'')
   \<and> snd (scenario 150 150) =
       Some (PostHighlight 0
         \<lparr>rect_x = 1, rect_y = 6433713753386423 / 4503599627370496,
          rect_w = 14 + 1 / 2 ^ 49, rect_h = 20\<rparr> ''yellow'')"
proof -
  have "js_sub (js_sub 65 tenth) (js_sub 55 tenth) = 10 + 1 / 2 ^ 47"
    by (simp add: tenth_facts)
  then show ?thesis
    by (simp add: pointer_at_def boundary_drag_request scenario_request)
qed

text \<open>
  C3, amended. A drag sends no request exactly when both deltas that the release handler
  computes, in the arithmetic of doubles, from the layer-relative press and release
  coordinates are at most 10, and it never changes a cache. When the pointer coordinates
  and the offset of the layer are integers, these are the pixel deltas themselves. The
  test is made on the deltas before they are converted: a request carries them as
  percentages of the layer's size. On a layer of 1000 by 700 pixels at the origin the drag
  from (10,10) to (12,11) sends nothing and leaves the cache empty; the drag to (150,150)
  sends a rectangle with \<open>w = 14 + 2^(-49)\<close> (printed as 14.000000000000002) and
  \<open>h = 20\<close>, which a successful response puts into the cache.
\<close>

theorem drag_threshold:
  fixes st :: "'i viewer"
  assumes "currentMode st = Some ''highlight''" "\<not> ev_on_delete e0" "dom_pages st p = Some pg"
    and "0 < layer_width pg" "0 < layer_height pg"
  shows "(snd (document_mouseup e1 (layer_mousedown p e0 st)) = None \<longleftrightarrow>
            \<bar>js_sub (rel_x pg e1) (rel_x pg e0)\<bar> \<le> 10 \<and> \<bar>js_sub (rel_y pg e1) (rel_y pg e0)\<bar> \<le> 10)
       \<and> (ev_clientX e0 = of_int sx \<and> ev_clientX e1 = of_int tx \<and> layer_left pg = of_int ox
            \<and> \<bar>sx - ox\<bar> < 2 ^ 52 \<and> \<bar>tx - ox\<bar> < 2 ^ 52
            \<and> ev_clientY e0 = of_int sy \<and> ev_clientY e1 = of_int ty \<and> layer_top pg = of_int oy
            \<and> \<bar>sy - oy\<bar> < 2 ^ 52 \<and> \<bar>ty - oy\<bar> < 2 ^ 52 \<longrightarrow>
            (snd (document_mouseup e1 (layer_mousedown p e0 st)) = None \<longleftrightarrow>
               \<bar>ev_clientX e1 - ev_clientX e0\<bar> \<le> 10 \<and> \<bar>ev_clientY e1 - ev_clientY e0\<bar> \<le> 10))
       \<and> (\<bar>js_sub (rel_x pg e1) (rel_x pg e0)\<bar> > 10 \<or> \<bar>js_sub (rel_y pg e1) (rel_y pg e0)\<bar> > 10 \<longrightarrow>
            (\<exists>r. snd (document_mouseup e1 (layer_mousedown p e0 st))
                    = Some (PostHighlight p r (currentHighlightColor st))
                \<and> rect_w r = percent \<bar>js_sub (rel_x pg e1) (rel_x pg e0)\<bar> (layer_width pg)
                \<and> rect_h r = percent \<bar>js_sub (rel_y pg e1) (rel_y pg e0)\<bar> (layer_height pg)))
       \<and> allHighlights (fst (document_mouseup e1 (layer_mousedown p e0 st))) = allHighlights st
       \<and> allNotes (fst (document_mouseup e1 (layer_mousedown p e0 st))) = allNotes st
       \<and> snd (scenario 12 11) = None
       \<and> allHighlights (fst (scenario 12 11)) = []
       \<and> snd (scenario 150 150) =
           Some (PostHighlight 0
             \<lparr>rect_x = 1, rect_y = 6433713753386423 / 4503599627370496,
              rect_w = 14 + 1 / 2 ^ 49, rect_h = 20\<rparr> ''yellow'')
       \<and> allHighlights (highlight_post_then 0
              \<lparr>rect_x = 1, rect_y = 6433713753386423 / 4503599627370496,
               rect_w = 14 + 1 / 2 ^ 49, rect_h = 20\<rparr>
              (Json \<lparr>success = True, reply_id = i, reply_error = None\<rparr>) (fst (scenario 150 150)))
          = [\<lparr>hl_id = i, hl_page_number = 0,
               hl_coordinates = \<lparr>rect_x = 1, rect_y = 6433713753386423 / 4503599627370496,
                                 rect_w = 14 + 1 / 2 ^ 49, rect_h = 20\<rparr>,
               hl_color = Some ''yellow''\<rparr>]"
proof -
  note req = mouseup_request [OF assms(1-3), of e1]
  have general: "snd (document_mouseup e1 (layer_mousedown p e0 st)) = None \<longleftrightarrow>
      \<bar>js_sub (rel_x pg e1) (rel_x pg e0)\<bar> \<le> 10 \<and> \<bar>js_sub (rel_y pg e1) (rel_y pg e0)\<bar> \<le> 10"
    unfolding req by (simp add: not_less)
  have ints: "snd (document_mouseup e1 (layer_mousedown p e0 st)) = None \<longleftrightarrow>
      \<bar>ev_clientX e1 - ev_clientX e0\<bar> \<le> 10 \<and> \<bar>ev_clientY e1 - ev_clientY e0\<bar> \<le> 10"
    if h: "ev_clientX e0 = of_int sx" "ev_clientX e1 = of_int tx" "layer_left pg = of_int ox"
      "\<bar>sx - ox\<bar> < 2 ^ 52" "\<bar>tx - ox\<bar> < 2 ^ 52"
      "ev_clientY e0 = of_int sy" "ev_clientY e1 = of_int ty" "layer_top pg = of_int oy"
      "\<bar>sy - oy\<bar> < 2 ^ 52" "\<bar>ty - oy\<bar> < 2 ^ 52"
  proof -
    have "js_sub (rel_x pg e1) (rel_x pg e0) = of_int (tx - sx)"
      unfolding rel_x_def by (rule rel_int(3) [OF h(1,2,3,4,5)])
    moreover have "js_sub (rel_y pg e1) (rel_y pg e0) = of_int (ty - sy)"
      unfolding rel_y_def by (rule rel_int(3) [OF h(6,7,8,9,10)])
    ultimately show ?thesis
      unfolding general by (simp add: h)
  qed
  have sent: "\<exists>r. snd (document_mouseup e1 (layer_mousedown p e0 st))
                    = Some (PostHighlight p r (currentHighlightColor st))
                \<and> rect_w r = percent \<bar>js_sub (rel_x pg e1) (rel_x pg e0)\<bar> (layer_width pg)
                \<and> rect_h r = percent \<bar>js_sub (rel_y pg e1) (rel_y pg e0)\<bar> (layer_height pg)"
    if "\<bar>js_sub (rel_x pg e1) (rel_x pg e0)\<bar> > 10 \<or> \<bar>js_sub (rel_y pg e1) (rel_y pg e0)\<bar> > 10"
    unfolding req using that by auto
  have w: "(7881299347898369 / 562949953421312 :: real) = 14 + 1 / 2 ^ 49" by simp
  have cached: "allHighlights (highlight_post_then 0
              \<lparr>rect_x = 1, rect_y = 6433713753386423 / 4503599627370496,
               rect_w = 14 + 1 / 2 ^ 49, rect_h = 20\<rparr>
              (Json \<lparr>success = True, reply_id = i, reply_error = None\<rparr>) (fst (scenario 150 150)))
          = [\<lparr>hl_id = i, hl_page_number = 0,
               hl_coordinates = \<lparr>rect_x = 1, rect_y = 6433713753386423 / 4503599627370496,
                                 rect_w = 14 + 1 / 2 ^ 49, rect_h = 20\<rparr>,
               hl_color = Some ''yellow''\<rparr>]"
    by (simp add: highlight_post_success scenario_state)
  have scen: "snd (scenario 12 11) = None" "allHighlights (fst (scenario 12 11)) = []"
    "snd (scenario 150 150) =
           Some (PostHighlight 0
             \<lparr>rect_x = 1, rect_y = 6433713753386423 / 4503599627370496,
              rect_w = 14 + 1 / 2 ^ 49, rect_h = 20\<rparr> ''yellow'')"
    using w by (simp_all add: scenario_request scenario_state)
  have cache: "allHighlights (fst (document_mouseup e1 (layer_mousedown p e0 st))) = allHighlights st"
    "allNotes (fst (document_mouseup e1 (layer_mousedown p e0 st))) = allNotes st"
    by (simp_all add: document_mouseup_cache layer_mousedown_open [OF assms(1-3)])
  from general ints sent cached scen cache show ?thesis by blast
qed

theorem drag_threshold_witness:
  "currentMode (toggleMode (Some ''highlight'') (on_load [0 \<mapsto> blank_page 500 700] :: nat viewer))
     = Some ''highlight''
   \<and> \<not> ev_on_delete (pointer_at 10 10)
   \<and> dom_pages (toggleMode (Some ''highlight'') (on_load [0 \<mapsto> blank_page 500 700] :: nat viewer)) 0
     = Some (blank_page 500 700)
   \<and> 0 < layer_width (blank_page 500 700 :: nat page)
   \<and> 0 < layer_height (blank_page 500 700 :: nat page)
   \<and> snd (document_mouseup (pointer_at 20 20)
        (layer_mousedown 0 (pointer_at 10 10)
          (toggleMode (Some ''highlight'') (on_load [0 \<mapsto> blank_page 500 700] :: nat viewer)))) = None
   \<and> snd (document_mouseup (pointer_at 10 21)
        (layer_mousedown 0 (pointer_at 10 10)
          (toggleMode (Some ''highlight'') (on_load [0 \<mapsto> blank_page 500 700] :: nat viewer)))) \<noteq> None"
proof -
  let ?st = "toggleMode (Some ''highlight'') (on_load [0 \<mapsto> blank_page 500 700] :: nat viewer)"
  let ?pg = "blank_page 500 700 :: nat page"
  have h1: "currentMode ?st = Some ''highlight''" by (simp add: toggleMode_def on_load_def)
  have h2: "\<not> ev_on_delete (pointer_at 10 10)" by (simp add: pointer_at_def)
  have h3: "dom_pages ?st 0 = Some ?pg" by (simp add: toggleMode_def on_load_def)
  have h4: "0 < layer_width ?pg" and h5: "0 < layer_height ?pg"
    by (simp_all add: blank_page_def)
  have i1: "ev_clientX (pointer_at 10 10) = of_int 10 \<and> ev_clientX (pointer_at 20 20) = of_int 20
      \<and> layer_left ?pg = of_int 0 \<and> \<bar>10 - 0\<bar> < (2::int) ^ 52 \<and> \<bar>20 - 0\<bar> < (2::int) ^ 52
      \<and> ev_clientY (pointer_at 10 10) = of_int 10 \<and> ev_clientY (pointer_at 20 20) = of_int 20
      \<and> layer_top ?pg = of_int 0 \<and> \<bar>10 - 0\<bar> < (2::int) ^ 52 \<and> \<bar>20 - 0\<bar> < (2::int) ^ 52"
    by (simp add: pointer_at_def blank_page_def)
  have i2: "ev_clientX (pointer_at 10 10) = of_int 10 \<and> ev_clientX (pointer_at 10 21) = of_int 10
      \<and> layer_left ?pg = of_int 0 \<and> \<bar>10 - 0\<bar> < (2::int) ^ 52 \<and> \<bar>10 - 0\<bar> < (2::int) ^ 52
      \<and> ev_clientY (pointer_at 10 10) = of_int 10 \<and> ev_clientY (pointer_at 10 21) = of_int 21
      \<and> layer_top ?pg = of_int 0 \<and> \<bar>10 - 0\<bar> < (2::int) ^ 52 \<and> \<bar>21 - 0\<bar> < (2::int) ^ 52"
    by (simp add: pointer_at_def blank_page_def)
  note t1 = drag_threshold [OF h1 h2 h3 h4 h5, where ?e1.0 = "pointer_at 20 20"
      and sx = 10 and tx = 20 and ox = 0 and sy = 10 and ty = 20 and oy = 0]
  note t2 = drag_threshold [OF h1 h2 h3 h4 h5, where ?e1.0 = "pointer_at 10 21"
      and sx = 10 and tx = 10 and ox = 0 and sy = 10 and ty = 21 and oy = 0]
  from t1 i1 have a: "snd (document_mouseup (pointer_at 20 20)
        (layer_mousedown 0 (pointer_at 10 10) ?st)) = None \<longleftrightarrow>
      \<bar>ev_clientX (pointer_at 20 20) - ev_clientX (pointer_at 10 10)\<bar> \<le> 10
      \<and> \<bar>ev_clientY (pointer_at 20 20) - ev_clientY (pointer_at 10 10)\<bar> \<le> 10"
    by blast
  from t2 i2 have b: "snd (document_mouseup (pointer_at 10 21)
        (layer_mousedown 0 (pointer_at 10 10) ?st)) = None \<longleftrightarrow>
      \<bar>ev_clientX (pointer_at 10 21) - ev_clientX (pointer_at 10 10)\<bar> \<le> 10
      \<and> \<bar>ev_clientY (pointer_at 10 21) - ev_clientY (pointer_at 10 10)\<bar> \<le> 10"
    by blast
  from a have a': "snd (document_mouseup (pointer_at 20 20)
        (layer_mousedown 0 (pointer_at 10 10) ?st)) = None"
    by (simp add: pointer_at_def)
  from b have b': "snd (document_mouseup (pointer_at 10 21)
        (layer_mousedown 0 (pointer_at 10 10) ?st)) \<noteq> None"
    by (simp add: pointer_at_def)
  from h1 h2 h3 h4 h5 a' b' show ?thesis by blast
qed

text \<open>
  C2. For any two corner points of a drag on a layer, the rectangle of the preview after
  a move and the rectangle of the request at release are the normalized one: the corner
  is the component-wise minimum of the two layer-relative points, the width and height
  are the absolute values of the differences that the script computes (exact for integer
  coordinates), so they are never negative, also as percentages; and a drag between the
  two points in the other direction gives exactly the same rectangle and request.
\<close>

theorem normalized_rectangle:
  fixes st :: "'i viewer"
  assumes "currentMode st = Some ''highlight''" "\<not> ev_on_delete e0" "\<not> ev_on_delete e1"
    and "dom_pages st p = Some pg" "0 < layer_width pg" "0 < layer_height pg"
  shows
  "(\<exists>pg'. dom_pages (document_mousemove e1 (layer_mousedown p e0 st)) p = Some pg' \<and>
       last (children pg') =
         \<lparr>node = next_node st,
          body = HighlightPreview (fst (preview_style (currentHighlightColor st)))
                   (snd (preview_style (currentHighlightColor st)))
                   (Some \<lparr>box_left = min (rel_x pg e0) (rel_x pg e1),
                          box_top = min (rel_y pg e0) (rel_y pg e1),
                          box_width = \<bar>js_sub (rel_x pg e1) (rel_x pg e0)\<bar>,
                          box_height = \<bar>js_sub (rel_y pg e1) (rel_y pg e0)\<bar>\<rparr>)\<rparr>)
   \<and> snd (document_mouseup e1 (layer_mousedown p e0 st)) =
       (if \<bar>js_sub (rel_x pg e1) (rel_x pg e0)\<bar> > 10 \<or> \<bar>js_sub (rel_y pg e1) (rel_y pg e0)\<bar> > 10 then
          Some (PostHighlight p
                  \<lparr>rect_x = percent (min (rel_x pg e0) (rel_x pg e1)) (layer_width pg),
                   rect_y = percent (min (rel_y pg e0) (rel_y pg e1)) (layer_height pg),
                   rect_w = percent \<bar>js_sub (rel_x pg e1) (rel_x pg e0)\<bar> (layer_width pg),
                   rect_h = percent \<bar>js_sub (rel_y pg e1) (rel_y pg e0)\<bar> (layer_height pg)\<rparr>
                  (currentHighlightColor st))
        else None)
   \<and> 0 \<le> percent \<bar>js_sub (rel_x pg e1) (rel_x pg e0)\<bar> (layer_width pg)
   \<and> 0 \<le> percent \<bar>js_sub (rel_y pg e1) (rel_y pg e0)\<bar> (layer_height pg)
   \<and> \<bar>js_sub (rel_x pg e0) (rel_x pg e1)\<bar> = \<bar>js_sub (rel_x pg e1) (rel_x pg e0)\<bar>
   \<and> \<bar>js_sub (rel_y pg e0) (rel_y pg e1)\<bar> = \<bar>js_sub (rel_y pg e1) (rel_y pg e0)\<bar>
   \<and> snd (document_mouseup e0 (layer_mousedown p e1 st)) =
       snd (document_mouseup e1 (layer_mousedown p e0 st))
   \<and> (ev_clientX e0 = of_int sx \<and> ev_clientX e1 = of_int tx \<and> layer_left pg = of_int ox
        \<and> \<bar>sx - ox\<bar> < 2 ^ 52 \<and> \<bar>tx - ox\<bar> < 2 ^ 52 \<longrightarrow>
      min (rel_x pg e0) (rel_x pg e1) = of_int (min sx tx - ox)
      \<and> \<bar>js_sub (rel_x pg e1) (rel_x pg e0)\<bar> = of_int \<bar>tx - sx\<bar>)
   \<and> (ev_clientY e0 = of_int sy \<and> ev_clientY e1 = of_int ty \<and> layer_top pg = of_int oy
        \<and> \<bar>sy - oy\<bar> < 2 ^ 52 \<and> \<bar>ty - oy\<bar> < 2 ^ 52 \<longrightarrow>
      min (rel_y pg e0) (rel_y pg e1) = of_int (min sy ty - oy)
      \<and> \<bar>js_sub (rel_y pg e1) (rel_y pg e0)\<bar> = of_int \<bar>ty - sy\<bar>)"
proof -
  note preview = mousemove_preview [OF assms(1,2,4), of e1]
  note req = mouseup_request [OF assms(1,2,4), of e1]
  have nonneg: "0 \<le> percent \<bar>js_sub (rel_x pg e1) (rel_x pg e0)\<bar> (layer_width pg)"
    "0 \<le> percent \<bar>js_sub (rel_y pg e1) (rel_y pg e0)\<bar> (layer_height pg)"
    using assms(5,6) by (simp_all add: percent_nonneg)
  have swap: "\<bar>js_sub (rel_x pg e0) (rel_x pg e1)\<bar> = \<bar>js_sub (rel_x pg e1) (rel_x pg e0)\<bar>"
    "\<bar>js_sub (rel_y pg e0) (rel_y pg e1)\<bar> = \<bar>js_sub (rel_y pg e1) (rel_y pg e0)\<bar>"
    by (rule js_sub_commute_abs)+
  note dir = drag_direction [OF assms(1,2,3,4)]
  have ix: "min (rel_x pg e0) (rel_x pg e1) = of_int (min sx tx - ox)
      \<and> \<bar>js_sub (rel_x pg e1) (rel_x pg e0)\<bar> = of_int \<bar>tx - sx\<bar>"
    if h: "ev_clientX e0 = of_int sx" "ev_clientX e1 = of_int tx" "layer_left pg = of_int ox"
      "\<bar>sx - ox\<bar> < 2 ^ 52" "\<bar>tx - ox\<bar> < 2 ^ 52"
  proof -
    have "rel_x pg e0 = of_int (sx - ox)" "rel_x pg e1 = of_int (tx - ox)"
      "js_sub (rel_x pg e1) (rel_x pg e0) = of_int (tx - sx)"
      unfolding rel_x_def by (rule rel_int [OF h])+
    then show ?thesis by (simp only: of_int_min [symmetric] of_int_abs [symmetric]) simp
  qed
  have iy: "min (rel_y pg e0) (rel_y pg e1) = of_int (min sy ty - oy)
      \<and> \<bar>js_sub (rel_y pg e1) (rel_y pg e0)\<bar> = of_int \<bar>ty - sy\<bar>"
    if h: "ev_clientY e0 = of_int sy" "ev_clientY e1 = of_int ty" "layer_top pg = of_int oy"
      "\<bar>sy - oy\<bar> < 2 ^ 52" "\<bar>ty - oy\<bar> < 2 ^ 52"
  proof -
    have "rel_y pg e0 = of_int (sy - oy)" "rel_y pg e1 = of_int (ty - oy)"
      "js_sub (rel_y pg e1) (rel_y pg e0) = of_int (ty - sy)"
      unfolding rel_y_def by (rule rel_int [OF h])+
    then show ?thesis by (simp only: of_int_min [symmetric] of_int_abs [symmetric]) simp
  qed
  from preview req nonneg swap dir ix iy show ?thesis by blast
qed

theorem normalized_rectangle_witness:
  "currentMode (toggleMode (Some ''highlight'') (on_load [0 \<mapsto> blank_page 1000 700] :: nat viewer))
     = Some ''highlight''
   \<and> \<not> ev_on_delete (pointer_at 150 150) \<and> \<not> ev_on_delete (pointer_at 10 10)
   \<and> dom_pages (toggleMode (Some ''highlight'') (on_load [0 \<mapsto> blank_page 1000 700] :: nat viewer)) 0
     = Some (blank_page 1000 700)
   \<and> 0 < layer_width (blank_page 1000 700 :: nat page)
   \<and> 0 < layer_height (blank_page 1000 700 :: nat page)
   \<and> (\<exists>pg'. dom_pages (document_mousemove (pointer_at 10 10)
          (layer_mousedown 0 (pointer_at 150 150)
            (toggleMode (Some ''highlight'') (on_load [0 \<mapsto> blank_page 1000 700] :: nat viewer)))) 0
          = Some pg' \<and>
        last (children pg') =
          \<lparr>node = 0,
           body = HighlightPreview ''rgba(255, 255, 0, 0.4)'' ''rgba(255, 165, 0, 0.8)''
             (Some \<lparr>box_left = 10, box_top = 10, box_width = 140, box_height = 140\<rparr>)\<rparr>)
   \<and> snd (document_mouseup (pointer_at 10 10)
        (layer_mousedown 0 (pointer_at 150 150)
          (toggleMode (Some ''highlight'') (on_load [0 \<mapsto> blank_page 1000 700] :: nat viewer))))
      = Some (PostHighlight 0
          \<lparr>rect_x = 1, rect_y = 6433713753386423 / 4503599627370496,
           rect_w = 14 + 1 / 2 ^ 49, rect_h = 20\<rparr> ''yellow'')"
proof -
  let ?st = "toggleMode (Some ''highlight'') (on_load [0 \<mapsto> blank_page 1000 700] :: nat viewer)"
  let ?pg = "blank_page 1000 700 :: nat page"
  have h1: "currentMode ?st = Some ''highlight''" by (simp add: toggleMode_def on_load_def)
  have h2: "\<not> ev_on_delete (pointer_at 150 150)" and h3: "\<not> ev_on_delete (pointer_at 10 10)"
    by (simp_all add: pointer_at_def)
  have h4: "dom_pages ?st 0 = Some ?pg" by (simp add: toggleMode_def on_load_def)
  have h5: "0 < layer_width ?pg" and h6: "0 < layer_height ?pg"
    by (simp_all add: blank_page_def)
  have ix: "ev_clientX (pointer_at 150 150) = of_int 150 \<and> ev_clientX (pointer_at 10 10) = of_int 10
      \<and> layer_left ?pg = of_int 0 \<and> \<bar>150 - 0\<bar> < (2::int) ^ 52 \<and> \<bar>10 - 0\<bar> < (2::int) ^ 52"
    and iy: "ev_clientY (pointer_at 150 150) = of_int 150 \<and> ev_clientY (pointer_at 10 10) = of_int 10
      \<and> layer_top ?pg = of_int 0 \<and> \<bar>150 - 0\<bar> < (2::int) ^ 52 \<and> \<bar>10 - 0\<bar> < (2::int) ^ 52"
    by (simp_all add: pointer_at_def blank_page_def)
  note t = normalized_rectangle [OF h1 h2 h3 h4 h5 h6, where sx = 150 and tx = 10 and ox = 0
      and sy = 150 and ty = 10 and oy = 0]
  from t ix have bx: "min (rel_x ?pg (pointer_at 150 150)) (rel_x ?pg (pointer_at 10 10)) = 10"
    "\<bar>js_sub (rel_x ?pg (pointer_at 10 10)) (rel_x ?pg (pointer_at 150 150))\<bar> = 140"
    by simp_all
  from t iy have by': "min (rel_y ?pg (pointer_at 150 150)) (rel_y ?pg (pointer_at 10 10)) = 10"
    "\<bar>js_sub (rel_y ?pg (pointer_at 10 10)) (rel_y ?pg (pointer_at 150 150))\<bar> = 140"
    by simp_all
  have st: "next_node ?st = 0" "currentHighlightColor ?st = ''yellow''"
    "preview_style ''yellow'' = (''rgba(255, 255, 0, 0.4)'', ''rgba(255, 165, 0, 0.8)'')"
    "layer_width ?pg = 1000" "layer_height ?pg = 700"
    by (simp_all add: toggleMode_def setMode_def on_load_def preview_style_def colorStyles_def
          blank_page_def)
  have pc: "percent 10 1000 = 1" "percent 10 700 = 6433713753386423 / 4503599627370496"
    "percent 140 1000 = 14 + 1 / 2 ^ 49" "percent 140 700 = 20"
    by (simp_all add: percent_def js_facts)
  from t have "\<exists>pg'. dom_pages (document_mousemove (pointer_at 10 10)
          (layer_mousedown 0 (pointer_at 150 150) ?st)) 0 = Some pg' \<and>
        last (children pg') =
          \<lparr>node = 0,
           body = HighlightPreview ''rgba(255, 255, 0, 0.4)'' ''rgba(255, 165, 0, 0.8)''
             (Some \<lparr>box_left = 10, box_top = 10, box_width = 140, box_height = 140\<rparr>)\<rparr>"
    unfolding bx by' st by simp
  moreover from t have "snd (document_mouseup (pointer_at 10 10)
        (layer_mousedown 0 (pointer_at 150 150) ?st))
      = Some (PostHighlight 0
          \<lparr>rect_x = 1, rect_y = 6433713753386423 / 4503599627370496,
           rect_w = 14 + 1 / 2 ^ 49, rect_h = 20\<rparr> ''yellow'')"
    unfolding bx by' st pc by simp
  ultimately show ?thesis using h1 h2 h3 h4 h5 h6 by blast
qed

subsection \<open>Deleting annotations\<close>

lemma deleteNote_then_success:
  assumes "success d"
  shows "allNotes (deleteNote_then ident m (Json d) st) = filter (\<lambda>n. note_id n \<noteq> ident) (allNotes st)"
    and "allHighlights (deleteNote_then ident m (Json d) st) = allHighlights st"
    and "alerts (deleteNote_then ident m (Json d) st) = alerts st"
    and "dom_pages (deleteNote_then ident m (Json d) st) k =
           map_option (\<lambda>pg. pg\<lparr>children := filter (\<lambda>el. \<not> (node el = m \<and> is_note_marker (body el))) (children pg)\<rparr>)
             (dom_pages st k)"
  using assms by (simp_all add: deleteNote_then_def Let_def remove_where_def)

lemma deleteNote_then_failure:
  assumes "resp = Rejected \<or> (\<exists>d. resp = Json d \<and> \<not> success d)"
  shows "allNotes (deleteNote_then ident m resp st) = allNotes st"
    and "allHighlights (deleteNote_then ident m resp st) = allHighlights st"
    and "dom_pages (deleteNote_then ident m resp st) = dom_pages st"
    and "\<exists>msg. alerts (deleteNote_then ident m resp st) = alerts st @ [msg]"
  using assms by (auto simp: deleteNote_then_def)

lemma deleteHighlight_then_success:
  assumes "success d"
  shows "allHighlights (deleteHighlight_then ident m (Json d) st) = filter (\<lambda>h. hl_id h \<noteq> ident) (allHighlights st)"
    and "allNotes (deleteHighlight_then ident m (Json d) st) = allNotes st"
    and "alerts (deleteHighlight_then ident m (Json d) st) = alerts st"
    and "dom_pages (deleteHighlight_then ident m (Json d) st) k =
           map_option (\<lambda>pg. pg\<lparr>children := filter (\<lambda>el. \<not> (node el = m \<and> is_highlight_marker (body el))) (children pg)\<rparr>)
             (dom_pages st k)"
  using assms by (simp_all add: deleteHighlight_then_def Let_def remove_where_def)

lemma deleteHighlight_then_failure:
  assumes "resp = Rejected \<or> (\<exists>d. resp = Json d \<and> \<not> success d)"
  shows "allNotes (deleteHighlight_then ident m resp st) = allNotes st"
    and "allHighlights (deleteHighlight_then ident m resp st) = allHighlights st"
    and "dom_pages (deleteHighlight_then ident m resp st) = dom_pages st"
    and "\<exists>msg. alerts (deleteHighlight_then ident m resp st) = alerts st @ [msg]"
  using assms by (auto simp: deleteHighlight_then_def)

text \<open>The page with one rendered note.\<close>

lemma noted_state:
  "allNotes (noted :: nat viewer) = [hi_note]"
  "dom_pages (noted :: nat viewer) 0 =
     Some ((blank_page 500 700)\<lparr>children := [\<lparr>node = 0, body = NoteMarker hi_note\<rparr>]\<rparr>)"
  "alerts (noted :: nat viewer) = []"
  by (simp_all add: noted_def hi_note_def note_post_then_def Let_def on_load_def renderNote_def
        create_element_def append_to_layer_def blank_page_def)

text \<open>
  C4. \<open>deleteNote\<close> sends its request only after \<open>confirm\<close> has returned true. When the
  page is rendered again between that request and its response, the marker that was
  clicked (node 0) is replaced by a new marker of the same note (node 1). The callback of
  the successful response then removes the note from the cache, and removes node 0,
  which is no longer in the document: the marker of the deleted note stays on the page,
  and no error is shown. Without the rendering in between, the marker leaves the page.
\<close>

theorem delete_after_rerender:
  "deleteNote 1 False noted = (noted, None)
   \<and> deleteNote 1 True noted = (noted, Some (DeleteNoteReq 1))
   \<and> allNotes noted = [hi_note]
   \<and> dom_pages noted 0 =
       Some ((blank_page 500 700)\<lparr>children := [\<lparr>node = 0, body = NoteMarker hi_note\<rparr>]\<rparr>)
   \<and> dom_pages (load [1] noted) 0 =
       Some ((blank_page 500 700)\<lparr>children := [\<lparr>node = 1, body = NoteMarker hi_note\<rparr>]\<rparr>)
   \<and> allNotes (deleteNote_then 1 0 (Json \<lparr>success = True, reply_id = 0, reply_error = None\<rparr>)
        (load [1] noted)) = []
   \<and> dom_pages (deleteNote_then 1 0 (Json \<lparr>success = True, reply_id = 0, reply_error = None\<rparr>)
        (load [1] noted)) 0 =
       Some ((blank_page 500 700)\<lparr>children := [\<lparr>node = 1, body = NoteMarker hi_note\<rparr>]\<rparr>)
   \<and> alerts (deleteNote_then 1 0 (Json \<lparr>success = True, reply_id = 0, reply_error = None\<rparr>)
        (load [1] noted)) = []
   \<and> dom_pages (deleteNote_then 1 0 (Json \<lparr>success = True, reply_id = 0, reply_error = None\<rparr>)
        noted) 0 = Some (blank_page 500 700)"
proof -
  have l: "dom_pages (load [1] noted) 0 =
       Some ((blank_page 500 700)\<lparr>children := [\<lparr>node = 1, body = NoteMarker hi_note\<rparr>]\<rparr>)"
    "allNotes (load [1] noted) = [hi_note]" "alerts (load [1] noted) = []"
    by (simp_all add: load_def load_entry_def loadAnnotations_def remove_markers_def
          renderNote_def create_element_def append_to_layer_def Let_def noted_def hi_note_def
          note_post_then_def on_load_def blank_page_def)
  have s: "success \<lparr>success = True, reply_id = 0::nat, reply_error = None\<rparr>" by simp
  show ?thesis
    by (simp add: deleteNote_def l noted_state deleteNote_then_success [OF s] hi_note_def
          blank_page_def)
qed

subsection \<open>Loading the annotations\<close>

lemma preload_failed_fields:
  "allNotes (preload_failed st) = []" "allHighlights (preload_failed st) = []"
  "console_errors (preload_failed st) = console_errors st @ [''Failed to load annotations:'']"
  "alerts (preload_failed st) = alerts st" "dom_pages (preload_failed st) = dom_pages st"
  "currentMode (preload_failed st) = currentMode st"
  by (simp_all add: preload_failed_def)

text \<open>
  C7. \<open>preloadAnnotations\<close> starts the fetch of the notes and the fetch of the highlights
  together, and its callback runs once on both results. When either fetch has failed,
  both caches are empty afterwards, the failure is written to the console and nothing
  else changes: no alert, the same document, the same mode. When both arrive as arrays,
  they become the caches.
\<close>

theorem preload_failure_resets:
  fixes st :: "'i viewer"
  shows
  "preloadAnnotations st = (st, [GetNotes, GetHighlights])
   \<and> (notes = FetchFailed \<or> highlights = FetchFailed \<longrightarrow>
        allNotes (preloadAnnotations_then notes highlights view st) = []
      \<and> allHighlights (preloadAnnotations_then notes highlights view st) = []
      \<and> console_errors (preloadAnnotations_then notes highlights view st)
          = console_errors st @ [''Failed to load annotations:'']
      \<and> alerts (preloadAnnotations_then notes highlights view st) = alerts st
      \<and> dom_pages (preloadAnnotations_then notes highlights view st) = dom_pages st
      \<and> currentMode (preloadAnnotations_then notes highlights view st) = currentMode st)
   \<and> allNotes (preloadAnnotations_then (Array ns) (Array hs) (Some v) st) = ns
   \<and> allHighlights (preloadAnnotations_then (Array ns) (Array hs) (Some v) st) = hs
   \<and> console_errors (preloadAnnotations_then (Array ns) (Array hs) (Some v) st) = console_errors st"
  by (auto simp: preloadAnnotations_def preloadAnnotations_then_def preload_failed_fields Let_def)

theorem preload_failure_resets_witness:
  "allNotes (preloadAnnotations_then (Array [hi_note]) FetchFailed (Some [1]) noted) = []
   \<and> allHighlights (preloadAnnotations_then (Array [hi_note]) FetchFailed (Some [1]) noted) = []
   \<and> console_errors (preloadAnnotations_then (Array [hi_note]) FetchFailed (Some [1]) noted)
       = [''Failed to load annotations:'']
   \<and> allNotes (preloadAnnotations_then (Array [hi_note]) (Array []) (Some [1]) noted) = [hi_note]"
proof -
  have h: "Array [hi_note] = FetchFailed \<or> (FetchFailed :: nat Highlight fetched) = FetchFailed"
    by simp
  have c: "console_errors (noted :: nat viewer) = []"
    by (simp add: noted_def note_post_then_def Let_def on_load_def)
  from preload_failure_resets [of noted "Array [hi_note]" FetchFailed "Some [1]" "[hi_note]" "[]" "[1]"] h c
  show ?thesis by simp
qed

subsection \<open>Rendering a note whose text holds markup\<close>

text \<open>
  C6. The markup that \<open>renderNote\<close> builds for the one cached note \<open>split_note\<close> holds two
  elements of class \<open>note-marker\<close> at its top level, so a rendering of its page shows two
  markers for one annotation. For \<open>stray_note\<close> the second element is not of a marker
  class: the selector by which \<open>loadAnnotations\<close> clears a page does not match it, so it
  stays when the page is rendered again. For a text without markup, as in \<open>hi_note\<close>,
  the markup is one marker.
\<close>

theorem note_markup_splits:
  \<open>map (\<lambda>t. (fst t, class_names t))
      (top_level (note_html ''10'' ''20'' (note_content split_note) ''1''))
     = [(''div'', [''note-marker'']), (''div'', [''note-marker''])]
   \<and> map marker_selected (top_level (note_html ''10'' ''20'' (note_content split_note) ''1''))
     = [True, True]
   \<and> map (\<lambda>t. (fst t, class_names t))
      (top_level (note_html ''10'' ''20'' (note_content stray_note) ''1''))
     = [(''div'', [''note-marker'']), (''div'', [''stray''])]
   \<and> map marker_selected (top_level (note_html ''10'' ''20'' (note_content stray_note) ''1''))
     = [True, False]
   \<and> map marker_selected (top_level (note_html ''10'' ''20'' (note_content hi_note) ''1''))
     = [True]\<close>
  by (simp add: top_level_def note_html_def split_note_def stray_note_def hi_note_def
        is_space_def is_letter_def add_attr_def open_tag_def class_names_def marker_selected_def)

subsection \<open>The colour of a rendered highlight\<close>

text \<open>
  C9. A highlight of the cache whose colour is none of the four of the palette is
  rendered with the class of that colour, not with \<open>highlight-yellow\<close>: from the cache
  \<open>[red_highlight]\<close>, \<open>loadAnnotations\<close> puts one marker of class \<open>highlight-red\<close> on
  page 0. The preview of a drag falls back to the yellow style for the same colour.
  A colour that is unset or empty does become yellow, and a palette colour is kept.
\<close>

theorem renderHighlight_unrecognized_color:
  "layer_bodies (loadAnnotations 0 0 ((on_load [0 \<mapsto> blank_page 500 700])\<lparr>allHighlights := [red_highlight]\<rparr>)) 0
     = Some [HighlightMarker ''highlight-red'' red_highlight]
   \<and> ''red'' \<notin> set palette
   \<and> preview_style ''red'' = preview_style ''yellow''
   \<and> colorClass (red_highlight\<lparr>hl_color := None\<rparr>) = ''highlight-yellow''
   \<and> colorClass (red_highlight\<lparr>hl_color := Some []\<rparr>) = ''highlight-yellow''
   \<and> map (\<lambda>c. colorClass (red_highlight\<lparr>hl_color := Some c\<rparr>)) palette
       = [''highlight-yellow'', ''highlight-green'', ''highlight-pink'', ''highlight-blue'']"
  by (simp add: layer_bodies_def loadAnnotations_def remove_markers_def renderHighlight_def
        create_element_def append_to_layer_def on_load_def blank_page_def red_highlight_def
        colorClass_def or_else_def preview_style_def colorStyles_def inherited_keys_def
        palette_def Let_def)

subsection \<open>The Flipbook\<close>

lemma renderPages_from_currentSpread [simp]:
  "currentSpread (renderPages_from i fb) = currentSpread fb"
  by (induction i fb rule: renderPages_from.induct) (subst renderPages_from.simps, simp)

lemma renderPages_from_isAnimating [simp]:
  "isAnimating (renderPages_from i fb) = isAnimating fb"
  by (induction i fb rule: renderPages_from.induct) (subst renderPages_from.simps, simp)

lemma renderPages_from_totalPages [simp]:
  "totalPages (renderPages_from i fb) = totalPages fb"
  by (induction i fb rule: renderPages_from.induct) (subst renderPages_from.simps, simp)

lemma renderPages_from_indices:
  "map w_index (book fb) = [1..int (length (book fb))] \<Longrightarrow> i = 2 * int (length (book fb)) \<Longrightarrow>
   map w_index (book (renderPages_from i fb)) = [1..int (length (book (renderPages_from i fb)))]"
proof (induction i fb rule: renderPages_from.induct)
  case (1 i fb)
  show ?case
  proof (cases "i < totalPages fb")
    case True
    let ?fb' = "fb\<lparr>book := book fb @
                 [\<lparr>w_index = i div 2 + 1, w_zIndex = totalPages fb - i,
                   w_back_img = (i + 1 < totalPages fb), w_flipped = False\<rparr>]\<rparr>"
    have "map w_index (book ?fb') = [1..int (length (book ?fb'))]"
      using "1.prems" by (simp add: upto_rec2)
    moreover have "i + 2 = 2 * int (length (book ?fb'))"
      using "1.prems" by simp
    ultimately have "map w_index (book (renderPages_from (i + 2) ?fb'))
        = [1..int (length (book (renderPages_from (i + 2) ?fb')))]"
      using "1.IH" [OF True] by blast
    then show ?thesis
      using True by (subst (1 2) renderPages_from.simps) simp
  next
    case False
    then show ?thesis using "1.prems" by (subst (1 2) renderPages_from.simps) simp
  qed
qed

lemma updateUI_fields [simp]:
  "currentSpread (updateUI fb) = currentSpread fb"
  "isAnimating (updateUI fb) = isAnimating fb"
  "book (updateUI fb) = book fb"
  "totalPages (updateUI fb) = totalPages fb"
  by (simp_all add: updateUI_def Let_def)

lemma Flipbook_inv: "fb_inv (Flipbook tp)"
  using renderPages_from_indices [of "\<lparr>book = [], totalPages = tp, currentSpread = 1,
                            isAnimating = False, pageIndicator = (0, 0)\<rparr>" 0]
  by (simp add: fb_inv_def Flipbook_def renderPages_def)

lemma set_flipped_indices [simp]:
  "map w_index (set_flipped k b ws) = map w_index ws"
  by (induction ws) simp_all

lemma set_flipped_length [simp]: "length (set_flipped k b ws) = length ws"
  by (induction ws) simp_all

lemma querySelector_Some:
  "querySelector k ws = Some w \<Longrightarrow> k \<in> set (map w_index ws)"
  by (auto simp: querySelector_def find_Some_iff)

lemma querySelector_None:
  "querySelector k ws = None \<longleftrightarrow> k \<notin> set (map w_index ws)"
  by (auto simp: querySelector_def find_None_iff)

lemma nextPage_inv: "fb_inv fb \<Longrightarrow> fb_inv (nextPage fb)"
  by (auto simp: fb_inv_def nextPage_def split: option.splits dest!: querySelector_Some)

lemma prevPage_inv: "fb_inv fb \<Longrightarrow> fb_inv (prevPage fb)"
  by (auto simp: fb_inv_def prevPage_def Let_def split: option.splits)

lemma fb_step_inv: "fb_inv fb \<Longrightarrow> fb_inv (fb_step fb ev)"
  by (cases ev) (simp_all add: nextPage_inv prevPage_inv, simp add: fb_inv_def)

lemma fb_run_inv: "fb_inv (fb_run tp evs)"
  unfolding fb_run_def
  by (induction evs rule: rev_induct) (simp_all add: Flipbook_inv fb_step_inv)

lemma fb_step_length: "length (book (fb_step fb ev)) = length (book fb)"
  by (cases ev) (simp_all add: nextPage_def prevPage_def Let_def split: option.splits)

lemma fb_run_length: "length (book (fb_run tp evs)) = length (book (Flipbook tp))"
  unfolding fb_run_def
  by (induction evs rule: rev_induct) (simp_all add: fb_step_length)

text \<open>
  C10. A new Flipbook has \<open>currentSpread = 1\<close>. After any sequence of calls of
  \<open>nextPage\<close> and \<open>prevPage\<close> and of animation timers, \<open>currentSpread\<close> is at least 1 and
  at most the number of rendered wrappers plus one. \<open>prevPage\<close> changes nothing when
  \<open>currentSpread \<le> 1\<close> or an animation is running; \<open>nextPage\<close> changes nothing when an
  animation is running or the wrapper of the current spread does not exist, and
  otherwise adds one to \<open>currentSpread\<close>.
\<close>

theorem currentSpread_bounds:
  "currentSpread (Flipbook tp) = 1
   \<and> 1 \<le> currentSpread (fb_run tp evs)
   \<and> currentSpread (fb_run tp evs) \<le> int (length (book (Flipbook tp))) + 1
   \<and> length (book (fb_run tp evs)) = length (book (Flipbook tp))
   \<and> (currentSpread fb \<le> 1 \<or> isAnimating fb \<longrightarrow> prevPage fb = fb)
   \<and> (isAnimating fb \<or> querySelector (currentSpread fb) (book fb) = None \<longrightarrow> nextPage fb = fb)
   \<and> (currentSpread (nextPage fb) \<noteq> currentSpread fb \<longrightarrow>
        querySelector (currentSpread fb) (book fb) \<noteq> None \<and> \<not> isAnimating fb
        \<and> currentSpread (nextPage fb) = currentSpread fb + 1)"
  using fb_run_inv [of tp evs] fb_run_length [of tp evs]
  by (auto simp: fb_inv_def Flipbook_def renderPages_def prevPage_def nextPage_def split: option.splits)

theorem currentSpread_bounds_witness:
  "isAnimating (fb_run 3 [NextPage])
   \<and> prevPage (fb_run 3 [NextPage]) = fb_run 3 [NextPage]
   \<and> nextPage (fb_run 3 [NextPage]) = fb_run 3 [NextPage]
   \<and> currentSpread (fb_run 3 [NextPage, AnimationEnd, NextPage, AnimationEnd, NextPage, PrevPage]) \<le> 3
   \<and> currentSpread (nextPage (Flipbook 3)) \<noteq> currentSpread (Flipbook 3)
   \<and> querySelector (currentSpread (Flipbook 3)) (book (Flipbook 3)) \<noteq> None
   \<and> currentSpread (nextPage (Flipbook 3)) = 2"
proof -
  have a: "isAnimating (fb_run 3 [NextPage])" by code_simp
  have b: "int (length (book (Flipbook 3))) + 1 = 3" by code_simp
  have c: "currentSpread (nextPage (Flipbook 3)) \<noteq> currentSpread (Flipbook 3)" by code_simp
  note run = currentSpread_bounds [of 3 "[NextPage, AnimationEnd, NextPage, AnimationEnd, NextPage, PrevPage]"
      "fb_run 3 [NextPage]"]
  note new = currentSpread_bounds [of 3 "[]" "Flipbook 3"]
  from run a have d: "prevPage (fb_run 3 [NextPage]) = fb_run 3 [NextPage]"
    "nextPage (fb_run 3 [NextPage]) = fb_run 3 [NextPage]"
    by blast+
  from run b
  have e: "currentSpread (fb_run 3 [NextPage, AnimationEnd, NextPage, AnimationEnd, NextPage, PrevPage]) \<le> 3"
    by simp
  from new c have f: "querySelector (currentSpread (Flipbook 3)) (book (Flipbook 3)) \<noteq> None"
    "currentSpread (nextPage (Flipbook 3)) = currentSpread (Flipbook 3) + 1"
    "currentSpread (Flipbook 3) = 1"
    by blast+
  from f have g: "currentSpread (nextPage (Flipbook 3)) = 2" by simp
  from a c d e f(1) g show ?thesis by blast
qed

end
